theory Spec2Isabelle
  imports Complex_Main "HOL-Library.Sublist"
begin

section \<open>Exceptions\<close>

text \<open>
  The exceptions \<open>weather.py\<close> can meet, as values. \<open>Error\<close> is
  \<open>mysql.connector.Error\<close> (every store failure), \<open>HTTPError\<close> stands for what
  \<open>requests.get\<close>, \<open>raise_for_status\<close> and \<open>response.json\<close> raise,
  \<open>ValueError\<close>, \<open>IndexError\<close> and \<open>TypeError\<close> are the built-in ones the
  code raises itself or by indexing, and \<open>KeyboardInterrupt\<close> is the interruption
  of the process: a \<open>BaseException\<close> that is not an \<open>Exception\<close>.
\<close>

datatype exn =
    Error string
  | HTTPError string
  | ValueError string
  | IndexError
  | TypeError
  | KeyboardInterrupt

text \<open>\<open>except mysql.connector.Error\<close> (lines 78 and 182).\<close>

fun is_mysql_error :: "exn \<Rightarrow> bool" where
  "is_mysql_error (Error _) = True"
| "is_mysql_error _ = False"

text \<open>\<open>except Exception\<close> (line 179).\<close>

fun is_Exception :: "exn \<Rightarrow> bool" where
  "is_Exception KeyboardInterrupt = False"
| "is_Exception _ = True"

section \<open>The forecast and its aggregation (lines 143 to 156)\<close>

text \<open>
  One element of \<open>data["list"]\<close>, with the fields the code reads:
  \<open>entry["dt_txt"]\<close>, \<open>entry["main"]["temp"]\<close>, \<open>entry["main"]["humidity"]\<close>,
  \<open>entry["wind"]["speed"]\<close> and the descriptions of \<open>entry["weather"]\<close>.
  JSON numbers are read as reals: the code only compares and stores them.
\<close>

record entry =
  e_dt_txt :: string
  e_temp :: real
  e_humidity :: real
  e_wind_speed :: real
  e_weather :: "string list"

text \<open>The six local variables bound to both fact statements.\<close>

record reading =
  r_temp_now :: real
  r_temp_min :: real
  r_temp_max :: real
  r_humidity :: real
  r_wind_speed :: real
  r_condition :: string

text \<open>\<open>str.startswith\<close>: \<open>startswith s p\<close> is \<open>s.startswith(p)\<close>.\<close>

fun startswith :: "string \<Rightarrow> string \<Rightarrow> bool" where
  "startswith s [] = True"
| "startswith [] (c # p) = False"
| "startswith (d # s) (c # p) = (d = c \<and> startswith s p)"

text \<open>
  Python's \<open>min\<close> and \<open>max\<close> of a list: the first element, replaced by each later
  one that is strictly smaller (larger); \<open>ValueError\<close> on the empty list.
\<close>

fun py_min :: "real list \<Rightarrow> exn + real" where
  "py_min [] = Inl (ValueError ''min() arg is an empty sequence'')"
| "py_min (x # xs) = Inr (foldl (\<lambda>m y. if y < m then y else m) x xs)"

fun py_max :: "real list \<Rightarrow> exn + real" where
  "py_max [] = Inl (ValueError ''max() arg is an empty sequence'')"
| "py_max (x # xs) = Inr (foldl (\<lambda>m y. if y > m then y else m) x xs)"

text \<open>\<open>xs[0]\<close>.\<close>

fun first :: "'a list \<Rightarrow> exn + 'a" where
  "first [] = Inl IndexError"
| "first (x # xs) = Inr x"

text \<open>Sequencing of computations that may raise.\<close>

fun and_then :: "exn + 'a \<Rightarrow> ('a \<Rightarrow> exn + 'b) \<Rightarrow> exn + 'b" where
  "and_then (Inl e) f = Inl e"
| "and_then (Inr a) f = f a"

text \<open>
  Lines 143 to 151: \<open>temps\<close> is the temperatures of the entries whose \<open>dt_txt\<close>
  starts with \<open>today_str\<close>, or, when there is none, the temperature of
  \<open>data["list"][0]\<close>; the value is \<open>(temp_now, temp_min, temp_max)\<close>.
\<close>

definition temperatures :: "string \<Rightarrow> entry list \<Rightarrow> exn + real \<times> real \<times> real" where
  "temperatures today_str data_list =
     and_then
       (let temps = map e_temp (filter (\<lambda>entry. startswith (e_dt_txt entry) today_str) data_list)
        in if temps = [] then and_then (first data_list) (\<lambda>e. Inr [e_temp e])
           else Inr temps) (\<lambda>temps.
     and_then (first temps) (\<lambda>temp_now.
     and_then (py_min temps) (\<lambda>temp_min.
     and_then (py_max temps) (\<lambda>temp_max.
       Inr (temp_now, temp_min, temp_max)))))"

text \<open>Lines 143 to 156: the temperatures, then \<open>curr = data["list"][0]\<close> and its fields.\<close>

definition aggregate :: "string \<Rightarrow> entry list \<Rightarrow> exn + reading" where
  "aggregate today_str data_list =
     and_then (temperatures today_str data_list) (\<lambda>(temp_now, temp_min, temp_max).
     and_then (first data_list) (\<lambda>curr.
     and_then (first (e_weather curr)) (\<lambda>condition.
       Inr \<lparr>r_temp_now = temp_now, r_temp_min = temp_min, r_temp_max = temp_max,
            r_humidity = e_humidity curr, r_wind_speed = e_wind_speed curr,
            r_condition = condition\<rparr>)))"

section \<open>The store\<close>

text \<open>
  The four tables of \<open>create_schema\<close> (lines 25 to 75), each a list of rows in
  insertion order, or \<open>None\<close> while the table does not exist. A row holds the
  values bound to the statement that wrote it: the width of a column
  (\<open>FLOAT\<close>, \<open>VARCHAR(n)\<close>) and the collation of a comparison are not modelled.
  Dates, times and timestamps are the strings the driver binds.
\<close>

record city_row =
  c_city_id :: nat
  c_name :: string
  c_lat :: real
  c_lon :: real

record date_row =
  d_date_id :: nat
  d_full_date :: string
  d_year :: int
  d_month :: int
  d_day :: int
  d_quarter :: int
  d_day_name :: string
  d_week_of_year :: int

record current_row =
  cw_city_id :: nat
  cw_temp_now :: real
  cw_temp_min :: real
  cw_temp_max :: real
  cw_humidity :: real
  cw_wind_speed :: real
  cw_condition_text :: string
  cw_last_updated :: string

record history_row =
  h_history_id :: nat
  h_city_id :: nat
  h_date_id :: nat
  h_time_measured :: string
  h_temp_now :: real
  h_temp_min :: real
  h_temp_max :: real
  h_humidity :: real
  h_wind_speed :: real
  h_condition_text :: string

record database =
  dim_city :: "city_row list option"
  dim_date :: "date_row list option"
  current_weather :: "current_row list option"
  historical_weather :: "history_row list option"

text \<open>
  \<open>AUTO_INCREMENT\<close>: the next key is one more than the largest key of the table,
  and 1 in an empty table.
\<close>

definition auto_increment :: "nat list \<Rightarrow> nat" where
  "auto_increment ids = Suc (foldr max ids 0)"

text \<open>\<open>CREATE TABLE IF NOT EXISTS\<close>: an existing table is left as it is.\<close>

definition create_if_not_exists :: "'r list option \<Rightarrow> 'r list option" where
  "create_if_not_exists t = (case t of None \<Rightarrow> Some [] | Some rows \<Rightarrow> Some rows)"

section \<open>Computations on a state that may raise\<close>

text \<open>
  A computation takes the state and returns the state it leaves, with the exception
  it raised or its value. \<open>then_do\<close> is the sequencing of two statements of the
  source: the second does not run when the first raises.
\<close>

definition then_do ::
  "('s \<Rightarrow> 's \<times> (exn + 'a)) \<Rightarrow> ('a \<Rightarrow> 's \<Rightarrow> 's \<times> (exn + 'b)) \<Rightarrow> 's \<Rightarrow> 's \<times> (exn + 'b)" where
  "then_do m f s = (case m s of (s', Inl e) \<Rightarrow> (s', Inl e) | (s', Inr a) \<Rightarrow> f a s')"

definition return :: "'a \<Rightarrow> 's \<Rightarrow> 's \<times> (exn + 'a)" where
  "return a s = (s, Inr a)"

text \<open>A computation that does not touch the state (a call to a provider, a local computation).\<close>

definition pure :: "exn + 'a \<Rightarrow> 's \<Rightarrow> 's \<times> (exn + 'a)" where
  "pure r s = (s, r)"

section \<open>Schema provisioning (lines 21 to 79)\<close>

text \<open>
  The steps of \<open>create_schema\<close> that talk to the store. Each can raise for a reason
  outside the program (store unreachable, insufficient privilege): the parameter
  \<open>fault\<close> says which do, and with what.
\<close>

datatype ddl_step =
    Connect
  | CreateDimCity
  | CreateDimDate
  | CreateCurrentWeather
  | CreateHistoricalWeather
  | CommitSchema

text \<open>
  A statement of \<open>create_schema\<close>. \<open>CREATE TABLE\<close> commits implicitly, so it
  acts on the store itself.
\<close>

definition ddl ::
  "(ddl_step \<Rightarrow> exn option) \<Rightarrow> ddl_step \<Rightarrow> (database \<Rightarrow> database) \<Rightarrow> database \<Rightarrow> database \<times> (exn + unit)" where
  "ddl fault step stmt db =
     (case fault step of Some e \<Rightarrow> (db, Inl e) | None \<Rightarrow> (stmt db, Inr ()))"

text \<open>The body of the \<open>try\<close> (lines 23 to 76).\<close>

definition create_tables :: "(ddl_step \<Rightarrow> exn option) \<Rightarrow> database \<Rightarrow> database \<times> (exn + unit)" where
  "create_tables fault =
     then_do (ddl fault Connect (\<lambda>db. db)) (\<lambda>_.
     then_do (ddl fault CreateDimCity
        (\<lambda>db. db\<lparr>dim_city := create_if_not_exists (dim_city db)\<rparr>)) (\<lambda>_.
     then_do (ddl fault CreateDimDate
        (\<lambda>db. db\<lparr>dim_date := create_if_not_exists (dim_date db)\<rparr>)) (\<lambda>_.
     then_do (ddl fault CreateCurrentWeather
        (\<lambda>db. db\<lparr>current_weather := create_if_not_exists (current_weather db)\<rparr>)) (\<lambda>_.
     then_do (ddl fault CreateHistoricalWeather
        (\<lambda>db. db\<lparr>historical_weather := create_if_not_exists (historical_weather db)\<rparr>)) (\<lambda>_.
     ddl fault CommitSchema (\<lambda>db. db))))))"

text \<open>
  What the program prints, line by line (the text of a line is not modelled, and
  neither is the progress bar).
\<close>

datatype report_entry =
    Success string real
  | Failure string exn

datatype line =
    SchemaCreated
  | SchemaError exn
  | DBError exn
  | ReportHeader
  | ReportLine report_entry
  | ETLComplete

text \<open>
  The result of a top-level call: the store it leaves, the lines it printed, and the
  exception that left it, if one did.
\<close>

type_synonym run = "database \<times> line list \<times> exn option"

text \<open>
  \<open>create_schema\<close>: a \<open>mysql.connector.Error\<close> is caught and printed (lines 78, 79)
  and the function returns; any other exception leaves the function.
\<close>

definition create_schema :: "(ddl_step \<Rightarrow> exn option) \<Rightarrow> database \<Rightarrow> run" where
  "create_schema fault db =
     (case create_tables fault db of
        (db', Inr _) \<Rightarrow> (db', [SchemaCreated], None)
      | (db', Inl err) \<Rightarrow>
          if is_mysql_error err then (db', [SchemaError err], None)
          else (db', [], Some err))"

section \<open>The connection of a batch and its statements\<close>

text \<open>
  A connection with autocommit off: statements act on the working copy, which the
  connection itself reads back; \<open>commit\<close> makes the working copy the committed
  store; closing the connection drops what was not committed. The committed copy is
  what is durable: what another connection sees, and what is left when the process
  stops.
\<close>

record connection =
  committed :: database
  working :: database

text \<open>In program order, the statements and commits of one city's iteration.\<close>

datatype db_step =
    InsertCity
  | CommitCity
  | SelectCity
  | SelectDate
  | InsertDate
  | CommitDate
  | UpsertCurrent
  | InsertHistory
  | CommitFacts

text \<open>\<open>datetime.now()\<close>, with what the code reads from it.\<close>

record datetime =
  dt_date :: string
  dt_year :: int
  dt_month :: int
  dt_day :: int
  dt_time :: string
  dt_day_name :: string
  dt_week :: int

text \<open>
  What is outside the program during one city's iteration: the answer of the
  geocoding provider (the exception of the request, or the decoded list of
  coordinates), the clock, the store's clock (\<open>NOW()\<close>), the answer of the
  forecast provider for a pair of coordinates (the exception of the request, or
  \<open>data["list"]\<close>), and the statements of that iteration that raise for a reason
  outside the program.
\<close>

record world =
  w_geocode :: "string \<Rightarrow> exn + (real \<times> real) list"
  w_now :: datetime
  w_db_now :: string
  w_forecast :: "real \<Rightarrow> real \<Rightarrow> exn + entry list"
  w_fault :: "db_step \<Rightarrow> exn option"

text \<open>
  \<open>cur.execute\<close>: a statement that raises changes nothing (the store undoes the
  statement, not the transaction); one that succeeds changes the working copy only.
\<close>

definition execute ::
  "world \<Rightarrow> db_step \<Rightarrow> (database \<Rightarrow> exn + database \<times> 'a) \<Rightarrow> connection \<Rightarrow> connection \<times> (exn + 'a)" where
  "execute w step stmt con =
     (case w_fault w step of
        Some e \<Rightarrow> (con, Inl e)
      | None \<Rightarrow>
          (case stmt (working con) of
             Inl e \<Rightarrow> (con, Inl e)
           | Inr (db, a) \<Rightarrow> (con\<lparr>working := db\<rparr>, Inr a)))"

text \<open>\<open>con.commit()\<close>.\<close>

definition commit :: "world \<Rightarrow> db_step \<Rightarrow> connection \<Rightarrow> connection \<times> (exn + unit)" where
  "commit w step con =
     (case w_fault w step of
        Some e \<Rightarrow> (con, Inl e)
      | None \<Rightarrow> (con\<lparr>committed := working con\<rparr>, Inr ()))"

text \<open>The store's answer to a statement on a table that does not exist.\<close>

definition no_table :: "string \<Rightarrow> exn" where
  "no_table t = Error (''Table '' @ t @ '' does not exist'')"

definition fk_fails :: "string \<Rightarrow> exn" where
  "fk_fails t = Error (''Cannot add or update a child row: a foreign key constraint fails ('' @ t @ '')'')"

text \<open>
  Line 92, \<open>INSERT IGNORE INTO dim_city\<close>: a row whose name is already there
  (\<open>name ... UNIQUE\<close>) is dropped without an error.
\<close>

definition sql_insert_ignore_city :: "string \<Rightarrow> real \<Rightarrow> real \<Rightarrow> database \<Rightarrow> exn + database \<times> unit" where
  "sql_insert_ignore_city city lat lon db =
     (case dim_city db of
        None \<Rightarrow> Inl (no_table ''dim_city'')
      | Some rows \<Rightarrow>
          if city \<in> set (map c_name rows) then Inr (db, ())
          else Inr (db\<lparr>dim_city := Some (rows @
                 [\<lparr>c_city_id = auto_increment (map c_city_id rows), c_name = city,
                   c_lat = lat, c_lon = lon\<rparr>])\<rparr>, ()))"

text \<open>Line 94, \<open>SELECT city_id FROM dim_city WHERE name=%s\<close>: the result set.\<close>

definition sql_select_city_id :: "string \<Rightarrow> database \<Rightarrow> exn + database \<times> nat list" where
  "sql_select_city_id city db =
     (case dim_city db of
        None \<Rightarrow> Inl (no_table ''dim_city'')
      | Some rows \<Rightarrow> Inr (db, map c_city_id (filter (\<lambda>r. c_name r = city) rows)))"

text \<open>\<open>cur.fetchone()[0]\<close>: \<open>fetchone\<close> is \<open>None\<close> on an empty result set.\<close>

fun fetchone_0 :: "'a list \<Rightarrow> exn + 'a" where
  "fetchone_0 [] = Inl TypeError"
| "fetchone_0 (x # xs) = Inr x"

text \<open>\<open>get_or_create_city\<close> (lines 90 to 95).\<close>

definition get_or_create_city ::
  "world \<Rightarrow> string \<Rightarrow> real \<Rightarrow> real \<Rightarrow> connection \<Rightarrow> connection \<times> (exn + nat)" where
  "get_or_create_city w city lat lon =
     then_do (execute w InsertCity (sql_insert_ignore_city city lat lon)) (\<lambda>_.
     then_do (commit w CommitCity) (\<lambda>_.
     then_do (execute w SelectCity (sql_select_city_id city)) (\<lambda>result.
     pure (fetchone_0 result))))"

text \<open>Line 102, \<open>SELECT date_id FROM dim_date WHERE full_date=%s\<close>.\<close>

definition sql_select_date_id :: "string \<Rightarrow> database \<Rightarrow> exn + database \<times> nat list" where
  "sql_select_date_id full_date db =
     (case dim_date db of
        None \<Rightarrow> Inl (no_table ''dim_date'')
      | Some rows \<Rightarrow> Inr (db, map d_date_id (filter (\<lambda>r. d_full_date r = full_date) rows)))"

text \<open>
  Lines 115 to 118, \<open>INSERT INTO dim_date\<close>: a date that is already there
  (\<open>full_date ... UNIQUE\<close>) is an error. The value is \<open>cur.lastrowid\<close>.
\<close>

definition sql_insert_date :: "date_row \<Rightarrow> database \<Rightarrow> exn + database \<times> nat" where
  "sql_insert_date r db =
     (case dim_date db of
        None \<Rightarrow> Inl (no_table ''dim_date'')
      | Some rows \<Rightarrow>
          if d_full_date r \<in> set (map d_full_date rows)
          then Inl (Error (''Duplicate entry '' @ d_full_date r))
          else let i = auto_increment (map d_date_id rows)
               in Inr (db\<lparr>dim_date := Some (rows @ [r\<lparr>d_date_id := i\<rparr>])\<rparr>, i))"

text \<open>\<open>get_or_create_date\<close> (lines 97 to 121).\<close>

definition get_or_create_date :: "world \<Rightarrow> datetime \<Rightarrow> connection \<Rightarrow> connection \<times> (exn + nat)" where
  "get_or_create_date w date_obj =
     then_do (execute w SelectDate (sql_select_date_id (dt_date date_obj))) (\<lambda>result.
     case result of
       row # _ \<Rightarrow> return row
     | [] \<Rightarrow>
         then_do (execute w InsertDate (sql_insert_date
            \<lparr>d_date_id = 0, d_full_date = dt_date date_obj,
             d_year = dt_year date_obj, d_month = dt_month date_obj, d_day = dt_day date_obj,
             d_quarter = (dt_month date_obj - 1) div 3 + 1,
             d_day_name = dt_day_name date_obj, d_week_of_year = dt_week date_obj\<rparr>)) (\<lambda>lastrowid.
         then_do (commit w CommitDate) (\<lambda>_.
         return lastrowid)))"

text \<open>\<open>FOREIGN KEY(city_id) REFERENCES dim_city(city_id)\<close> and the one on \<open>date_id\<close>.\<close>

definition city_exists :: "database \<Rightarrow> nat \<Rightarrow> bool" where
  "city_exists db i = (case dim_city db of None \<Rightarrow> False | Some rows \<Rightarrow> i \<in> set (map c_city_id rows))"

definition date_exists :: "database \<Rightarrow> nat \<Rightarrow> bool" where
  "date_exists db i = (case dim_date db of None \<Rightarrow> False | Some rows \<Rightarrow> i \<in> set (map d_date_id rows))"

text \<open>
  Lines 159 to 167, \<open>INSERT INTO current_weather ... ON DUPLICATE KEY UPDATE\<close>:
  without a row of that \<open>city_id\<close> (the primary key) the row is inserted, with
  \<open>last_updated\<close> at its default, the store's time; otherwise the six listed
  columns and \<open>last_updated\<close> of the row that is there are assigned.
\<close>

definition sql_upsert_current :: "nat \<Rightarrow> reading \<Rightarrow> string \<Rightarrow> database \<Rightarrow> exn + database \<times> unit" where
  "sql_upsert_current city_id r now db =
     (case current_weather db of
        None \<Rightarrow> Inl (no_table ''current_weather'')
      | Some rows \<Rightarrow>
          if \<not> city_exists db city_id then Inl (fk_fails ''current_weather'')
          else if city_id \<in> set (map cw_city_id rows)
          then Inr (db\<lparr>current_weather := Some (map (\<lambda>x.
                 if cw_city_id x = city_id
                 then x\<lparr>cw_temp_now := r_temp_now r, cw_temp_min := r_temp_min r,
                        cw_temp_max := r_temp_max r, cw_humidity := r_humidity r,
                        cw_wind_speed := r_wind_speed r, cw_condition_text := r_condition r,
                        cw_last_updated := now\<rparr>
                 else x) rows)\<rparr>, ())
          else Inr (db\<lparr>current_weather := Some (rows @
                 [\<lparr>cw_city_id = city_id, cw_temp_now = r_temp_now r, cw_temp_min = r_temp_min r,
                   cw_temp_max = r_temp_max r, cw_humidity = r_humidity r,
                   cw_wind_speed = r_wind_speed r, cw_condition_text = r_condition r,
                   cw_last_updated = now\<rparr>])\<rparr>, ()))"

text \<open>Lines 170 to 174, \<open>INSERT INTO historical_weather\<close>.\<close>

definition sql_insert_history ::
  "nat \<Rightarrow> nat \<Rightarrow> string \<Rightarrow> reading \<Rightarrow> database \<Rightarrow> exn + database \<times> unit" where
  "sql_insert_history city_id date_id time_measured r db =
     (case historical_weather db of
        None \<Rightarrow> Inl (no_table ''historical_weather'')
      | Some rows \<Rightarrow>
          if \<not> city_exists db city_id \<or> \<not> date_exists db date_id
          then Inl (fk_fails ''historical_weather'')
          else Inr (db\<lparr>historical_weather := Some (rows @
                 [\<lparr>h_history_id = auto_increment (map h_history_id rows),
                   h_city_id = city_id, h_date_id = date_id, h_time_measured = time_measured,
                   h_temp_now = r_temp_now r, h_temp_min = r_temp_min r,
                   h_temp_max = r_temp_max r, h_humidity = r_humidity r,
                   h_wind_speed = r_wind_speed r, h_condition_text = r_condition r\<rparr>])\<rparr>, ()))"

section \<open>The providers\<close>

text \<open>\<open>get_city_coordinates\<close> (lines 81 to 88).\<close>

definition get_city_coordinates :: "world \<Rightarrow> string \<Rightarrow> exn + real \<times> real" where
  "get_city_coordinates w city =
     and_then (w_geocode w city) (\<lambda>data.
       case data of
         [] \<Rightarrow> Inl (ValueError (''No coordinates for '' @ city))
       | d # _ \<Rightarrow> Inr d)"

section \<open>The batch (lines 123 to 188)\<close>

text \<open>
  Lines 159 to 176: the upsert of the snapshot, the insert into the history and their
  commit. The value is \<open>temp_now\<close>, which line 177 puts in the report.
\<close>

definition write_facts ::
  "world \<Rightarrow> nat \<Rightarrow> nat \<Rightarrow> string \<Rightarrow> reading \<Rightarrow> connection \<Rightarrow> connection \<times> (exn + real)" where
  "write_facts w city_id date_id time_measured r =
     then_do (execute w UpsertCurrent (sql_upsert_current city_id r (w_db_now w))) (\<lambda>_.
     then_do (execute w InsertHistory (sql_insert_history city_id date_id time_measured r)) (\<lambda>_.
     then_do (commit w CommitFacts) (\<lambda>_.
     return (r_temp_now r))))"

text \<open>The body of the inner \<open>try\<close> (lines 132 to 176) for one city.\<close>

definition process_city :: "world \<Rightarrow> string \<Rightarrow> connection \<Rightarrow> connection \<times> (exn + real)" where
  "process_city w city =
     then_do (pure (get_city_coordinates w city)) (\<lambda>(lat, lon).
     then_do (get_or_create_city w city lat lon) (\<lambda>city_id.
     then_do (get_or_create_date w (w_now w)) (\<lambda>date_id.
     then_do (pure (w_forecast w lat lon)) (\<lambda>data_list.
     then_do (pure (aggregate (dt_date (w_now w)) data_list)) (\<lambda>r.
     write_facts w city_id date_id (dt_time (w_now w)) r)))))"

text \<open>
  The loop of line 129 with the handler of line 179: an \<open>Exception\<close> becomes a
  failure entry and the loop goes on; anything else leaves the loop. The \<open>i\<close>-th
  iteration runs in the \<open>i\<close>-th world.
\<close>

fun process_cities ::
  "(nat \<Rightarrow> world) \<Rightarrow> nat \<Rightarrow> string list \<Rightarrow> report_entry list \<Rightarrow> connection
     \<Rightarrow> connection \<times> (exn + report_entry list)" where
  "process_cities ws i [] results con = (con, Inr results)"
| "process_cities ws i (city # rest) results con =
     (case process_city (ws i) city con of
        (con', Inr temp_now) \<Rightarrow>
          process_cities ws (Suc i) rest (results @ [Success city temp_now]) con'
      | (con', Inl e) \<Rightarrow>
          if is_Exception e
          then process_cities ws (Suc i) rest (results @ [Failure city e]) con'
          else (con', Inl e))"

text \<open>
  What is outside the program during a run: the faults of schema provisioning, the
  exception of \<open>mysql.connector.connect\<close> in \<open>collect_weather\<close> if it raises, and
  the world of each iteration.
\<close>

record environment =
  schema_fault :: "ddl_step \<Rightarrow> exn option"
  connect_fault :: "exn option"
  worlds :: "nat \<Rightarrow> world"

text \<open>
  \<open>collect_weather\<close>, on the list of cities (the global \<open>cities\<close> in the source).
  Leaving the \<open>with\<close> block closes the connection: the store that remains is the
  committed copy.
\<close>

definition collect_weather :: "environment \<Rightarrow> string list \<Rightarrow> database \<Rightarrow> run" where
  "collect_weather env cities db =
     (case connect_fault env of
        Some err \<Rightarrow>
          if is_mysql_error err then (db, [DBError err], None) else (db, [], Some err)
      | None \<Rightarrow>
          (case process_cities (worlds env) 0 cities [] \<lparr>committed = db, working = db\<rparr> of
             (con, Inl e) \<Rightarrow> (committed con, [], Some e)
           | (con, Inr results) \<Rightarrow>
               (committed con, ReportHeader # map ReportLine results, None)))"

text \<open>The entry point (lines 190 to 193).\<close>

definition main :: "environment \<Rightarrow> string list \<Rightarrow> database \<Rightarrow> run" where
  "main env cities db =
     (case create_schema (schema_fault env) db of
        (db1, out1, Some e) \<Rightarrow> (db1, out1, Some e)
      | (db1, out1, None) \<Rightarrow>
          (case collect_weather env cities db1 of
             (db2, out2, Some e) \<Rightarrow> (db2, out1 @ out2, Some e)
           | (db2, out2, None) \<Rightarrow> (db2, out1 @ out2 @ [ETLComplete], None)))"

section \<open>Notions used in the statements\<close>

text \<open>The forecast entries of the collection day.\<close>

definition todays :: "string \<Rightarrow> entry list \<Rightarrow> entry list" where
  "todays today_str data_list = filter (\<lambda>entry. startswith (e_dt_txt entry) today_str) data_list"

text \<open>The rows of a table (none while the table does not exist).\<close>

definition table_rows :: "'r list option \<Rightarrow> 'r list" where
  "table_rows t = (case t of None \<Rightarrow> [] | Some rows \<Rightarrow> rows)"

text \<open>The keys under which \<open>dim_city\<close> holds a name.\<close>

definition city_ids :: "database \<Rightarrow> string \<Rightarrow> nat list" where
  "city_ids db city = map c_city_id (filter (\<lambda>r. c_name r = city) (table_rows (dim_city db)))"

text \<open>The snapshot rows and the history rows of a city.\<close>

definition snapshot :: "database \<Rightarrow> nat \<Rightarrow> current_row list" where
  "snapshot db i = filter (\<lambda>x. cw_city_id x = i) (table_rows (current_weather db))"

definition history :: "database \<Rightarrow> nat \<Rightarrow> history_row list" where
  "history db i = filter (\<lambda>x. h_city_id x = i) (table_rows (historical_weather db))"

text \<open>The snapshot row and the history row that hold a reading.\<close>

definition snapshot_row :: "nat \<Rightarrow> reading \<Rightarrow> string \<Rightarrow> current_row" where
  "snapshot_row i r now =
     \<lparr>cw_city_id = i, cw_temp_now = r_temp_now r, cw_temp_min = r_temp_min r,
      cw_temp_max = r_temp_max r, cw_humidity = r_humidity r, cw_wind_speed = r_wind_speed r,
      cw_condition_text = r_condition r, cw_last_updated = now\<rparr>"

definition history_row_of :: "nat \<Rightarrow> nat \<Rightarrow> nat \<Rightarrow> string \<Rightarrow> reading \<Rightarrow> history_row" where
  "history_row_of k i d t r =
     \<lparr>h_history_id = k, h_city_id = i, h_date_id = d, h_time_measured = t,
      h_temp_now = r_temp_now r, h_temp_min = r_temp_min r, h_temp_max = r_temp_max r,
      h_humidity = r_humidity r, h_wind_speed = r_wind_speed r,
      h_condition_text = r_condition r\<rparr>"

text \<open>The primary key of \<open>current_weather\<close>: at most one row for a city.\<close>

definition one_row_per_city :: "database \<Rightarrow> bool" where
  "one_row_per_city db = distinct (map cw_city_id (table_rows (current_weather db)))"

text \<open>
  The effect of the upsert on the rows of \<open>current_weather\<close>: the row of the key is
  replaced where it stands, or the new row is added at the end.
\<close>

definition upsert_rows :: "current_row \<Rightarrow> current_row list \<Rightarrow> current_row list" where
  "upsert_rows row rows =
     (if cw_city_id row \<in> set (map cw_city_id rows)
      then map (\<lambda>x. if cw_city_id x = cw_city_id row then row else x) rows
      else rows @ [row])"

text \<open>
  A later store keeps an earlier one: the rows of both dimensions and of the history
  are still there, unchanged and in place, with new rows only after them; the snapshot
  table still has a row for every key it had, in place; and the primary key of the
  snapshot table still holds if it did.
\<close>

definition keeps :: "database \<Rightarrow> database \<Rightarrow> bool" where
  "keeps db db' \<longleftrightarrow>
     prefix (table_rows (dim_city db)) (table_rows (dim_city db')) \<and>
     prefix (table_rows (dim_date db)) (table_rows (dim_date db')) \<and>
     prefix (table_rows (historical_weather db)) (table_rows (historical_weather db')) \<and>
     prefix (map cw_city_id (table_rows (current_weather db)))
            (map cw_city_id (table_rows (current_weather db'))) \<and>
     (one_row_per_city db \<longrightarrow> one_row_per_city db')"

text \<open>
  The same between two states of a connection: the working copy is kept, and, if the
  working copy was ahead of the committed one, so is the committed copy, and the
  working copy is still ahead of it.
\<close>

definition conn_keeps :: "connection \<Rightarrow> connection \<Rightarrow> bool" where
  "conn_keeps con con' \<longleftrightarrow>
     keeps (working con) (working con') \<and>
     (keeps (committed con) (working con) \<longrightarrow>
        keeps (committed con) (committed con') \<and> keeps (committed con') (working con'))"

text \<open>The city of a report entry, and the entry that the outcome of a city's pipeline makes.\<close>

fun entry_city :: "report_entry \<Rightarrow> string" where
  "entry_city (Success city t) = city"
| "entry_city (Failure city e) = city"

fun entry_of :: "string \<Rightarrow> exn + real \<Rightarrow> report_entry" where
  "entry_of city (Inr t) = Success city t"
| "entry_of city (Inl e) = Failure city e"

text \<open>
  A world in which the process is not interrupted: neither provider and no statement
  raises \<open>KeyboardInterrupt\<close>.
\<close>

definition not_interrupted :: "world \<Rightarrow> bool" where
  "not_interrupted w \<longleftrightarrow>
     (\<forall>city. w_geocode w city \<noteq> Inl KeyboardInterrupt) \<and>
     (\<forall>lat lon. w_forecast w lat lon \<noteq> Inl KeyboardInterrupt) \<and>
     (\<forall>step. w_fault w step \<noteq> Some KeyboardInterrupt)"

text \<open>A store in which the four tables exist.\<close>

definition provisioned :: "database \<Rightarrow> bool" where
  "provisioned db \<longleftrightarrow>
     dim_city db \<noteq> None \<and> dim_date db \<noteq> None \<and> current_weather db \<noteq> None \<and>
     historical_weather db \<noteq> None"

text \<open>Two stores with the same rows in every table.\<close>

definition same_rows :: "database \<Rightarrow> database \<Rightarrow> bool" where
  "same_rows db db' \<longleftrightarrow>
     table_rows (dim_city db') = table_rows (dim_city db) \<and>
     table_rows (dim_date db') = table_rows (dim_date db) \<and>
     table_rows (current_weather db') = table_rows (current_weather db) \<and>
     table_rows (historical_weather db') = table_rows (historical_weather db)"





section \<open>Example inputs\<close>

text \<open>
  A forecast whose entries of 1 May 2024 have the temperatures 20, 22 and 19, between
  entries of other days.
\<close>

definition forecast_example :: "entry list" where
  "forecast_example =
     [\<lparr>e_dt_txt = ''2024-04-30 21:00:00'', e_temp = 15, e_humidity = 60, e_wind_speed = 3, e_weather = [''clear sky'']\<rparr>,
      \<lparr>e_dt_txt = ''2024-05-01 00:00:00'', e_temp = 20, e_humidity = 61, e_wind_speed = 4, e_weather = [''few clouds'']\<rparr>,
      \<lparr>e_dt_txt = ''2024-05-02 00:00:00'', e_temp = 30, e_humidity = 62, e_wind_speed = 5, e_weather = [''rain'']\<rparr>,
      \<lparr>e_dt_txt = ''2024-05-01 03:00:00'', e_temp = 22, e_humidity = 63, e_wind_speed = 6, e_weather = [''mist'']\<rparr>,
      \<lparr>e_dt_txt = ''2024-05-01 06:00:00'', e_temp = 19, e_humidity = 64, e_wind_speed = 7, e_weather = [''haze'']\<rparr>,
      \<lparr>e_dt_txt = ''2024-05-03 00:00:00'', e_temp = 10, e_humidity = 65, e_wind_speed = 8, e_weather = [''snow'']\<rparr>]"

text \<open>The store right after a first \<open>create_schema\<close>, and a connection to it.\<close>

definition empty_store :: database where
  "empty_store = \<lparr>dim_city = Some [], dim_date = Some [], current_weather = Some [],
     historical_weather = Some []\<rparr>"

definition fresh :: connection where
  "fresh = \<lparr>committed = empty_store, working = empty_store\<rparr>"

text \<open>
  A world in which every provider answers and no statement fails, on 1 May 2024, and
  the same world one day earlier with another forecast.
\<close>

definition may_first :: datetime where
  "may_first = \<lparr>dt_date = ''2024-05-01'', dt_year = 2024, dt_month = 5, dt_day = 1,
     dt_time = ''10:00:00'', dt_day_name = ''Wednesday'', dt_week = 18\<rparr>"

definition calm :: world where
  "calm = \<lparr>w_geocode = (\<lambda>city. Inr [(34, -7)]), w_now = may_first,
     w_db_now = ''2024-05-01 10:00:01'',
     w_forecast = (\<lambda>lat lon. Inr forecast_example), w_fault = (\<lambda>step. None)\<rparr>"

text \<open>The store and the connection after Rabat was resolved.\<close>

definition rabat_row :: city_row where
  "rabat_row = \<lparr>c_city_id = 1, c_name = ''Rabat'', c_lat = 34, c_lon = -7\<rparr>"

definition with_rabat :: database where
  "with_rabat = empty_store\<lparr>dim_city := Some [rabat_row]\<rparr>"

definition rabat_known :: connection where
  "rabat_known = \<lparr>committed = with_rabat, working = with_rabat\<rparr>"

text \<open>The store and the connection after a first successful collection for Rabat.\<close>

definition may_first_row :: date_row where
  "may_first_row = \<lparr>d_date_id = 1, d_full_date = ''2024-05-01'', d_year = 2024, d_month = 5,
     d_day = 1, d_quarter = 2, d_day_name = ''Wednesday'', d_week_of_year = 18\<rparr>"

definition with_date :: database where
  "with_date = with_rabat\<lparr>dim_date := Some [may_first_row]\<rparr>"

definition rabat_reading :: reading where
  "rabat_reading = \<lparr>r_temp_now = 20, r_temp_min = 19, r_temp_max = 22, r_humidity = 60,
     r_wind_speed = 3, r_condition = ''clear sky''\<rparr>"

definition rabat_collected :: database where
  "rabat_collected = \<lparr>dim_city = Some [rabat_row], dim_date = Some [may_first_row],
     current_weather = Some [snapshot_row 1 rabat_reading ''2024-05-01 10:00:01''],
     historical_weather = Some [history_row_of 1 1 1 ''10:00:00'' rabat_reading]\<rparr>"

definition rabat_done :: connection where
  "rabat_done = \<lparr>committed = rabat_collected, working = rabat_collected\<rparr>"

text \<open>A run in which nothing fails.\<close>

definition calm_run :: environment where
  "calm_run = \<lparr>schema_fault = (\<lambda>step. None), connect_fault = None, worlds = (\<lambda>i. calm)\<rparr>"

text \<open>
  The next day: another forecast, and the store and the connection after a second
  successful collection for Rabat.
\<close>

definition forecast_next :: "entry list" where
  "forecast_next =
     [\<lparr>e_dt_txt = ''2024-05-02 09:00:00'', e_temp = 25, e_humidity = 40, e_wind_speed = 9, e_weather = [''sunny'']\<rparr>,
      \<lparr>e_dt_txt = ''2024-05-02 12:00:00'', e_temp = 27, e_humidity = 41, e_wind_speed = 10, e_weather = [''hot'']\<rparr>,
      \<lparr>e_dt_txt = ''2024-05-03 00:00:00'', e_temp = 5, e_humidity = 42, e_wind_speed = 11, e_weather = [''fog'']\<rparr>]"

definition may_second :: datetime where
  "may_second = \<lparr>dt_date = ''2024-05-02'', dt_year = 2024, dt_month = 5, dt_day = 2,
     dt_time = ''09:30:00'', dt_day_name = ''Thursday'', dt_week = 18\<rparr>"

definition breezy :: world where
  "breezy = \<lparr>w_geocode = (\<lambda>city. Inr [(34, -7)]), w_now = may_second,
     w_db_now = ''2024-05-02 09:30:02'',
     w_forecast = (\<lambda>lat lon. Inr forecast_next), w_fault = (\<lambda>step. None)\<rparr>"

definition may_second_row :: date_row where
  "may_second_row = \<lparr>d_date_id = 2, d_full_date = ''2024-05-02'', d_year = 2024, d_month = 5,
     d_day = 2, d_quarter = 2, d_day_name = ''Thursday'', d_week_of_year = 18\<rparr>"

definition second_reading :: reading where
  "second_reading = \<lparr>r_temp_now = 25, r_temp_min = 25, r_temp_max = 27, r_humidity = 40,
     r_wind_speed = 9, r_condition = ''sunny''\<rparr>"

definition rabat_collected_again :: database where
  "rabat_collected_again = \<lparr>dim_city = Some [rabat_row],
     dim_date = Some [may_first_row, may_second_row],
     current_weather = Some [snapshot_row 1 second_reading ''2024-05-02 09:30:02''],
     historical_weather = Some [history_row_of 1 1 1 ''10:00:00'' rabat_reading,
       history_row_of 2 1 2 ''09:30:00'' second_reading]\<rparr>"

definition rabat_again :: connection where
  "rabat_again = \<lparr>committed = rabat_collected_again, working = rabat_collected_again\<rparr>"

text \<open>
  A world in which the geocoding provider knows no city, and a run over two cities
  whose first iteration happens in it.
\<close>

definition nowhere :: world where
  "nowhere = calm\<lparr>w_geocode := (\<lambda>city. Inr [])\<rparr>"

definition mixed_run :: environment where
  "mixed_run = \<lparr>schema_fault = (\<lambda>step. None), connect_fault = None,
     worlds = (\<lambda>i. if i = 0 then nowhere else calm)\<rparr>"

text \<open>
  A store without any table, and a store that refuses the third \<open>CREATE TABLE\<close>.
\<close>

definition no_store :: database where
  "no_store = \<lparr>dim_city = None, dim_date = None, current_weather = None,
     historical_weather = None\<rparr>"

definition denied :: "ddl_step \<Rightarrow> exn option" where
  "denied step = (if step = CreateCurrentWeather then Some (Error ''CREATE command denied'') else None)"

text \<open>
  A run whose schema provisioning is refused by the store while collection works, and
  a run interrupted while schema provisioning connects.
\<close>

definition denied_run :: environment where
  "denied_run = \<lparr>schema_fault = denied, connect_fault = None, worlds = (\<lambda>i. calm)\<rparr>"

definition interrupted_run :: environment where
  "interrupted_run = \<lparr>schema_fault = (\<lambda>step. if step = Connect then Some KeyboardInterrupt else None),
     connect_fault = None, worlds = (\<lambda>i. calm)\<rparr>"



definition fes_row :: city_row where
  "fes_row = \<lparr>c_city_id = 2, c_name = ''Fes'', c_lat = 34, c_lon = -7\<rparr>"



text \<open>
  A world in which the historical insert raises a store error, a run over two cities
  whose first iteration happens in it, the connection that the failed collection for
  Rabat leaves, the store at the commit of the city row of Fes, and the store at the
  end of the run.
\<close>

definition stuck :: world where
  "stuck = calm\<lparr>w_fault := (\<lambda>step. if step = InsertHistory
     then Some (Error ''Lock wait timeout exceeded'') else None)\<rparr>"

definition stuck_run :: environment where
  "stuck_run = \<lparr>schema_fault = (\<lambda>step. None), connect_fault = None,
     worlds = (\<lambda>i. if i = 0 then stuck else calm)\<rparr>"

definition rabat_pending :: connection where
  "rabat_pending = \<lparr>committed = with_date,
     working = with_date\<lparr>current_weather := Some
       [snapshot_row 1 rabat_reading ''2024-05-01 10:00:01'']\<rparr>\<rparr>"

definition snapshot_durable :: database where
  "snapshot_durable = \<lparr>dim_city = Some [rabat_row, fes_row], dim_date = Some [may_first_row],
     current_weather = Some [snapshot_row 1 rabat_reading ''2024-05-01 10:00:01''],
     historical_weather = Some []\<rparr>"

definition lopsided :: database where
  "lopsided = \<lparr>dim_city = Some [rabat_row, fes_row], dim_date = Some [may_first_row],
     current_weather = Some [snapshot_row 1 rabat_reading ''2024-05-01 10:00:01'',
       snapshot_row 2 rabat_reading ''2024-05-01 10:00:01''],
     historical_weather = Some [history_row_of 1 2 1 ''10:00:00'' rabat_reading]\<rparr>"

section \<open>Properties of the aggregation\<close>

lemma foldl_min_eq: "foldl (\<lambda>m y. if y < m then y else m) (x::real) xs = Min (set (x # xs))"
proof -
  have "(\<lambda>m y. if y < m then y else m) = (\<lambda>m (y::real). min y m)"
    by (intro ext) (simp add: min_def)
  then show ?thesis
    by (simp only: foldl_conv_fold Min.set_eq_fold)
qed

lemma foldl_max_eq: "foldl (\<lambda>m y. if y > m then y else m) (x::real) xs = Max (set (x # xs))"
proof -
  have "(\<lambda>m y. if y > m then y else m) = (\<lambda>m (y::real). max y m)"
    by (intro ext) (simp add: max_def)
  then show ?thesis
    by (simp only: foldl_conv_fold Max.set_eq_fold)
qed

lemma py_min_Min:
  assumes "temps \<noteq> []"
  shows "py_min temps = Inr (Min (set temps))"
proof (cases temps)
  case Nil
  with assms show ?thesis by simp
next
  case (Cons x xs)
  then show ?thesis by (simp only: py_min.simps foldl_min_eq)
qed

lemma py_max_Max:
  assumes "temps \<noteq> []"
  shows "py_max temps = Inr (Max (set temps))"
proof (cases temps)
  case Nil
  with assms show ?thesis by simp
next
  case (Cons x xs)
  then show ?thesis by (simp only: py_max.simps foldl_max_eq)
qed

lemma first_hd: "xs \<noteq> [] \<Longrightarrow> first xs = Inr (hd xs)"
  by (cases xs) simp_all

lemma temperatures_today:
  assumes "todays today_str data_list \<noteq> []"
  shows "temperatures today_str data_list =
     Inr (e_temp (hd (todays today_str data_list)),
          Min (e_temp ` set (todays today_str data_list)),
          Max (e_temp ` set (todays today_str data_list)))"
proof -
  let ?temps = "map e_temp (todays today_str data_list)"
  have ne: "?temps \<noteq> []" using assms by simp
  have "temperatures today_str data_list =
     and_then (first ?temps) (\<lambda>temp_now. and_then (py_min ?temps) (\<lambda>temp_min.
       and_then (py_max ?temps) (\<lambda>temp_max. Inr (temp_now, temp_min, temp_max))))"
    using ne by (simp add: temperatures_def todays_def Let_def)
  also have "\<dots> = Inr (hd ?temps, Min (set ?temps), Max (set ?temps))"
    by (simp add: first_hd [OF ne] py_min_Min [OF ne] py_max_Max [OF ne])
  finally show ?thesis using assms by (simp add: hd_map)
qed

lemma temperatures_fallback:
  assumes "todays today_str data_list = []"
  shows "temperatures today_str data_list =
     (case data_list of [] \<Rightarrow> Inl IndexError
      | e # _ \<Rightarrow> Inr (e_temp e, e_temp e, e_temp e))"
  using assms by (cases data_list) (simp_all add: temperatures_def todays_def Let_def)

lemma todays_example: "map e_temp (todays ''2024-05-01'' forecast_example) = [20, 22, 19]"
  by (simp add: todays_def forecast_example_def)

lemma todays_example_none: "todays ''2024-06-01'' forecast_example = []"
  by (simp add: todays_def forecast_example_def)

text \<open>
  Claim C3. For every forecast sequence and collection day: when some entry is of
  the collection day, \<open>temp_now\<close> is the temperature of the first such entry and
  \<open>temp_min\<close>, \<open>temp_max\<close> are the least and the greatest temperature among those
  entries; when none is, and the sequence is not empty, all three are the temperature
  of the first entry of the whole sequence (on the empty sequence the code raises
  \<open>IndexError\<close>). In particular, when the temperatures of the entries of the
  collection day are 20, 22, 19 in this order, whatever entries of other days lie
  between them, the result is \<open>temp_now = 20\<close>, \<open>temp_min = 19\<close>, \<open>temp_max = 22\<close>.
\<close>

theorem temperature_aggregation:
  "(todays today_str data_list \<noteq> [] \<longrightarrow>
      temperatures today_str data_list =
        Inr (e_temp (hd (todays today_str data_list)),
             Min (e_temp ` set (todays today_str data_list)),
             Max (e_temp ` set (todays today_str data_list)))) \<and>
   (todays today_str data_list = [] \<longrightarrow> data_list \<noteq> [] \<longrightarrow>
      temperatures today_str data_list =
        Inr (e_temp (hd data_list), e_temp (hd data_list), e_temp (hd data_list))) \<and>
   (data_list = [] \<longrightarrow> temperatures today_str data_list = Inl IndexError) \<and>
   (map e_temp (todays today_str data_list) = [20, 22, 19] \<longrightarrow>
      temperatures today_str data_list = Inr (20, 19, 22))"
proof (intro conjI impI)
  assume "todays today_str data_list \<noteq> []"
  then show "temperatures today_str data_list =
        Inr (e_temp (hd (todays today_str data_list)),
             Min (e_temp ` set (todays today_str data_list)),
             Max (e_temp ` set (todays today_str data_list)))"
    by (rule temperatures_today)
next
  assume "todays today_str data_list = []" and "data_list \<noteq> []"
  then show "temperatures today_str data_list =
        Inr (e_temp (hd data_list), e_temp (hd data_list), e_temp (hd data_list))"
    by (cases data_list) (simp_all add: temperatures_fallback)
next
  assume "data_list = []"
  then show "temperatures today_str data_list = Inl IndexError"
    by (simp add: temperatures_def)
next
  assume ex: "map e_temp (todays today_str data_list) = [20, 22, 19]"
  then have ne: "todays today_str data_list \<noteq> []" by auto
  have "e_temp (hd (todays today_str data_list)) = hd (map e_temp (todays today_str data_list))"
    using ne by (simp add: hd_map)
  moreover have "e_temp ` set (todays today_str data_list) = set (map e_temp (todays today_str data_list))"
    by simp
  ultimately show "temperatures today_str data_list = Inr (20, 19, 22)"
    unfolding temperatures_today [OF ne] ex by simp
qed

theorem temperature_aggregation_witness:
  "todays ''2024-05-01'' forecast_example \<noteq> [] \<and>
   map e_temp (todays ''2024-05-01'' forecast_example) = [20, 22, 19] \<and>
   temperatures ''2024-05-01'' forecast_example = Inr (20, 19, 22) \<and>
   todays ''2024-06-01'' forecast_example = [] \<and> forecast_example \<noteq> [] \<and>
   temperatures ''2024-06-01'' forecast_example = Inr (15, 15, 15) \<and>
   temperatures ''2024-05-01'' [] = Inl IndexError"
proof -
  have a: "map e_temp (todays ''2024-05-01'' forecast_example) = [20, 22, 19]"
    by (rule todays_example)
  then have b: "todays ''2024-05-01'' forecast_example \<noteq> []" by auto
  have c: "todays ''2024-06-01'' forecast_example = []" by (rule todays_example_none)
  have d: "forecast_example \<noteq> []" by (simp add: forecast_example_def)
  have e: "e_temp (hd forecast_example) = 15"
    by (simp add: forecast_example_def)
  from temperature_aggregation [of "''2024-05-01''" forecast_example] a
  have f: "temperatures ''2024-05-01'' forecast_example = Inr (20, 19, 22)" by blast
  from temperature_aggregation [of "''2024-06-01''" forecast_example] c d
  have "temperatures ''2024-06-01'' forecast_example =
        Inr (e_temp (hd forecast_example), e_temp (hd forecast_example), e_temp (hd forecast_example))"
    by blast
  then have g: "temperatures ''2024-06-01'' forecast_example = Inr (15, 15, 15)"
    by (simp only: e)
  from temperature_aggregation [of "''2024-05-01''" "[]"]
  have h: "temperatures ''2024-05-01'' [] = Inl IndexError" by blast
  from a b c d f g h show ?thesis by blast
qed

section \<open>Rules for sequencing, statements and commits\<close>

lemma then_do_Inr_iff:
  "then_do m f s = (s'', Inr b) \<longleftrightarrow> (\<exists>s' a. m s = (s', Inr a) \<and> f a s' = (s'', Inr b))"
  by (auto simp: then_do_def split: prod.splits sum.splits)

lemma then_do_Inl_iff:
  "then_do m f s = (s'', Inl e) \<longleftrightarrow>
     (m s = (s'', Inl e) \<or> (\<exists>s' a. m s = (s', Inr a) \<and> f a s' = (s'', Inl e)))"
  by (auto simp: then_do_def split: prod.splits sum.splits)



lemma pure_iff: "pure r s = (s', r') \<longleftrightarrow> s' = s \<and> r' = r"
  by (auto simp: pure_def)

lemma return_iff: "return a s = (s', r) \<longleftrightarrow> s' = s \<and> r = Inr a"
  by (auto simp: return_def)

lemma and_then_Inr_iff: "and_then x f = Inr b \<longleftrightarrow> (\<exists>a. x = Inr a \<and> f a = Inr b)"
  by (cases x) simp_all

lemma execute_Inr_iff:
  "execute w step stmt con = (con', Inr a) \<longleftrightarrow>
     w_fault w step = None \<and> (\<exists>db. stmt (working con) = Inr (db, a) \<and> con' = con\<lparr>working := db\<rparr>)"
  by (auto simp: execute_def split: option.splits sum.splits)

lemma execute_Inl: "execute w step stmt con = (con', Inl e) \<Longrightarrow> con' = con"
  by (auto simp: execute_def split: option.splits sum.splits)

lemma commit_Inr_iff:
  "commit w step con = (con', Inr u) \<longleftrightarrow>
     w_fault w step = None \<and> con' = con\<lparr>committed := working con\<rparr>"
  by (auto simp: commit_def split: option.splits)

lemma commit_Inl: "commit w step con = (con', Inl e) \<Longrightarrow> con' = con"
  by (auto simp: commit_def split: option.splits)

lemma pure_Inr_iff: "pure r s = (s', Inr a) \<longleftrightarrow> s' = s \<and> r = Inr a"
  by (auto simp: pure_def)

section \<open>City resolution\<close>

lemma fetchone_0_Inr_iff: "fetchone_0 xs = Inr i \<longleftrightarrow> (\<exists>ids. xs = i # ids)"
  by (cases xs) auto

lemma sql_select_city_id_Inr_iff:
  "sql_select_city_id city db = Inr (db', ids) \<longleftrightarrow>
     db' = db \<and> dim_city db \<noteq> None \<and> ids = city_ids db city"
  by (auto simp: sql_select_city_id_def city_ids_def table_rows_def split: option.splits)

lemma get_or_create_city_Inr_iff:
  "get_or_create_city w city lat lon con = (con', Inr i) \<longleftrightarrow>
     w_fault w InsertCity = None \<and> w_fault w CommitCity = None \<and> w_fault w SelectCity = None \<and>
     (\<exists>db1 ids. sql_insert_ignore_city city lat lon (working con) = Inr (db1, ()) \<and>
        city_ids db1 city = i # ids \<and> dim_city db1 \<noteq> None \<and>
        con' = \<lparr>committed = db1, working = db1\<rparr>)"
  unfolding get_or_create_city_def
  by (auto simp: then_do_Inr_iff execute_Inr_iff commit_Inr_iff pure_Inr_iff
      fetchone_0_Inr_iff sql_select_city_id_Inr_iff)


lemma sql_insert_ignore_city_Inr_iff:
  "sql_insert_ignore_city city lat lon db = Inr (db', u) \<longleftrightarrow>
     (\<exists>rows. dim_city db = Some rows \<and>
        db' = (if city \<in> set (map c_name rows) then db
               else db\<lparr>dim_city := Some (rows @
                 [\<lparr>c_city_id = auto_increment (map c_city_id rows), c_name = city,
                   c_lat = lat, c_lon = lon\<rparr>])\<rparr>))"
  by (auto simp: sql_insert_ignore_city_def split: option.splits)

lemma city_ids_Nil_iff:
  "city_ids db city = [] \<longleftrightarrow> city \<notin> set (map c_name (table_rows (dim_city db)))"
  by (auto simp: city_ids_def filter_empty_conv)

lemma insert_ignore_present:
  assumes "dim_city db \<noteq> None" "city_ids db city \<noteq> []"
  shows "sql_insert_ignore_city city lat lon db = Inr (db, ())"
  using assms by (auto simp: sql_insert_ignore_city_def city_ids_Nil_iff table_rows_def split: option.splits)

lemma filter_name_absent:
  "city \<notin> c_name ` set rows \<Longrightarrow> filter (\<lambda>r. c_name r = city) rows = []"
  by (auto simp: filter_empty_conv)

lemma insert_ignore_city_ids:
  assumes "sql_insert_ignore_city city lat lon db = Inr (db1, u)"
  shows "city_ids db1 city =
           (if city_ids db city = []
            then [auto_increment (map c_city_id (table_rows (dim_city db)))]
            else city_ids db city)"
    and "dim_city db1 \<noteq> None"
  using assms
  by (auto simp: sql_insert_ignore_city_def city_ids_def table_rows_def filter_name_absent
      filter_empty_conv split: option.splits if_splits)

lemma get_or_create_city_total:
  assumes t: "dim_city (working con) \<noteq> None"
    and f: "w_fault w InsertCity = None" "w_fault w CommitCity = None" "w_fault w SelectCity = None"
  shows "\<exists>con1 i. get_or_create_city w city lat lon con = (con1, Inr i)"
proof -
  from t obtain rows where rows: "dim_city (working con) = Some rows" by auto
  obtain db1 where db1: "sql_insert_ignore_city city lat lon (working con) = Inr (db1, ())"
    using rows by (cases "city \<in> set (map c_name rows)") (auto simp: sql_insert_ignore_city_def)
  then have ex: "dim_city db1 \<noteq> None" and "city_ids db1 city \<noteq> []"
    using insert_ignore_city_ids [OF db1] by (auto split: if_splits)
  then obtain i ids where "city_ids db1 city = i # ids" by (cases "city_ids db1 city") auto
  with f db1 ex
  have "get_or_create_city w city lat lon con = (\<lparr>committed = db1, working = db1\<rparr>, Inr i)"
    by (auto simp: get_or_create_city_Inr_iff)
  then show ?thesis by blast
qed

lemma get_or_create_city_again:
  assumes first: "get_or_create_city w1 city lat lon con = (con1, Inr i)"
    and f: "w_fault w2 InsertCity = None" "w_fault w2 CommitCity = None" "w_fault w2 SelectCity = None"
  shows "get_or_create_city w2 city lat' lon' con1 = (con1, Inr i)"
proof -
  from first obtain db1 ids where
    ids: "city_ids db1 city = i # ids" and ex: "dim_city db1 \<noteq> None"
    and con1: "con1 = \<lparr>committed = db1, working = db1\<rparr>"
    by (auto simp: get_or_create_city_Inr_iff)
  have again: "sql_insert_ignore_city city lat' lon' db1 = Inr (db1, ())"
    using ex ids by (intro insert_ignore_present) auto
  show ?thesis
    unfolding get_or_create_city_Inr_iff using f again ids ex con1 by auto
qed

lemma get_or_create_city_rows:
  assumes first: "get_or_create_city w city lat lon con = (con1, Inr i)"
  shows "city_ids (working con1) city =
        (if city_ids (working con) city = [] then [i] else city_ids (working con) city)"
    and "\<exists>new. table_rows (dim_city (working con1)) = table_rows (dim_city (working con)) @ new \<and>
         length new \<le> 1"
proof -
  from first obtain db1 ids where
    ins: "sql_insert_ignore_city city lat lon (working con) = Inr (db1, ())"
    and ids: "city_ids db1 city = i # ids"
    and con1: "con1 = \<lparr>committed = db1, working = db1\<rparr>"
    by (auto simp: get_or_create_city_Inr_iff)
  show "city_ids (working con1) city =
        (if city_ids (working con) city = [] then [i] else city_ids (working con) city)"
    using insert_ignore_city_ids(1) [OF ins] ids con1 by (auto split: if_splits)
  show "\<exists>new. table_rows (dim_city (working con1)) = table_rows (dim_city (working con)) @ new \<and>
         length new \<le> 1"
    using ins con1
    by (auto simp: sql_insert_ignore_city_Inr_iff table_rows_def split: if_splits)
qed

text \<open>
  Claim C8. City resolution is insert-if-absent-then-select. Whenever the table
  \<open>dim_city\<close> exists and the store accepts the three statements, the resolution
  returns an id. Whenever a resolution of a name has returned an id, in any state of
  the store, a second resolution of that name (with any coordinates) that the store
  accepts returns the same id and leaves the connection as it was: it does not fail
  on the duplicate and inserts nothing. The first resolution adds at most one row,
  and none when the name was there: the name is held once if it was absent before.
\<close>

theorem city_resolution_idempotent:
  "(dim_city (working con) \<noteq> None \<longrightarrow>
    w_fault w1 InsertCity = None \<longrightarrow> w_fault w1 CommitCity = None \<longrightarrow> w_fault w1 SelectCity = None \<longrightarrow>
      (\<exists>con1 i. get_or_create_city w1 city lat lon con = (con1, Inr i))) \<and>
   (get_or_create_city w1 city lat lon con = (con1, Inr i) \<longrightarrow>
    w_fault w2 InsertCity = None \<longrightarrow> w_fault w2 CommitCity = None \<longrightarrow> w_fault w2 SelectCity = None \<longrightarrow>
      get_or_create_city w2 city lat' lon' con1 = (con1, Inr i) \<and>
      city_ids (working con1) city =
        (if city_ids (working con) city = [] then [i] else city_ids (working con) city) \<and>
      (\<exists>new. table_rows (dim_city (working con1)) = table_rows (dim_city (working con)) @ new \<and>
         length new \<le> 1))"
  using get_or_create_city_total [of con w1 city lat lon]
    get_or_create_city_again [of w1 city lat lon con con1 i w2 lat' lon']
    get_or_create_city_rows [of w1 city lat lon con con1 i]
  by blast

theorem city_resolution_idempotent_witness:
  "dim_city (working fresh) \<noteq> None \<and>
   w_fault calm InsertCity = None \<and> w_fault calm CommitCity = None \<and>
   w_fault calm SelectCity = None \<and>
   get_or_create_city calm ''Rabat'' 34 (-7) fresh = (rabat_known, Inr 1) \<and>
   get_or_create_city calm ''Rabat'' 0 0 rabat_known = (rabat_known, Inr 1) \<and>
   city_ids (working fresh) ''Rabat'' = [] \<and>
   city_ids (working rabat_known) ''Rabat'' = [1]"
proof -
  have f: "w_fault calm InsertCity = None" "w_fault calm CommitCity = None"
    "w_fault calm SelectCity = None"
    by (simp_all add: calm_def)
  have t: "dim_city (working fresh) \<noteq> None"
    by (simp add: fresh_def empty_store_def)
  have e: "city_ids (working fresh) ''Rabat'' = []"
    by (simp add: city_ids_def table_rows_def fresh_def empty_store_def)
  have r: "get_or_create_city calm ''Rabat'' 34 (-7) fresh = (rabat_known, Inr 1)"
    by (simp add: get_or_create_city_def then_do_def execute_def commit_def pure_def calm_def
     sql_insert_ignore_city_def sql_select_city_id_def fresh_def empty_store_def with_rabat_def
     rabat_known_def rabat_row_def auto_increment_def)
  from city_resolution_idempotent [of fresh calm "''Rabat''" 34 "-7" rabat_known 1 calm 0 0] r f e
  have "get_or_create_city calm ''Rabat'' 0 0 rabat_known = (rabat_known, Inr 1)"
    and "city_ids (working rabat_known) ''Rabat'' = [1]"
    by simp_all
  with f t e r show ?thesis by simp
qed

section \<open>The pipeline of one city, when it succeeds\<close>

lemma process_city_Inr_iff:
  "process_city w city con = (con', Inr t) \<longleftrightarrow>
   (\<exists>lat lon city_id date_id data_list r con1 con2.
      get_city_coordinates w city = Inr (lat, lon) \<and>
      get_or_create_city w city lat lon con = (con1, Inr city_id) \<and>
      get_or_create_date w (w_now w) con1 = (con2, Inr date_id) \<and>
      w_forecast w lat lon = Inr data_list \<and>
      aggregate (dt_date (w_now w)) data_list = Inr r \<and>
      write_facts w city_id date_id (dt_time (w_now w)) r con2 = (con', Inr t))"
  unfolding process_city_def
  by (simp add: then_do_Inr_iff pure_Inr_iff split_paired_Ex) blast

section \<open>What every statement keeps\<close>

lemma keeps_refl: "keeps db db"
  by (simp add: keeps_def)

lemma keeps_trans: "keeps a b \<Longrightarrow> keeps b c \<Longrightarrow> keeps a c"
  unfolding keeps_def by (meson prefix_order.trans)

lemma conn_keeps_refl: "conn_keeps con con"
  by (simp add: conn_keeps_def keeps_refl)

lemma conn_keeps_trans: "conn_keeps a b \<Longrightarrow> conn_keeps b c \<Longrightarrow> conn_keeps a c"
  unfolding conn_keeps_def by (meson keeps_trans)

lemma snapshot_row_update:
  "cw_city_id x = i \<Longrightarrow>
   x\<lparr>cw_temp_now := r_temp_now r, cw_temp_min := r_temp_min r,
     cw_temp_max := r_temp_max r, cw_humidity := r_humidity r,
     cw_wind_speed := r_wind_speed r, cw_condition_text := r_condition r,
     cw_last_updated := now\<rparr> = snapshot_row i r now"
  by (cases x) (simp add: snapshot_row_def)

lemma sql_upsert_current_Inr_iff:
  "sql_upsert_current i r now db = Inr (db', u) \<longleftrightarrow>
     (\<exists>rows. current_weather db = Some rows \<and> city_exists db i \<and>
        db' = db\<lparr>current_weather := Some (upsert_rows (snapshot_row i r now) rows)\<rparr>)"
proof -
  have m: "map (\<lambda>x. if cw_city_id x = i
                 then x\<lparr>cw_temp_now := r_temp_now r, cw_temp_min := r_temp_min r,
                        cw_temp_max := r_temp_max r, cw_humidity := r_humidity r,
                        cw_wind_speed := r_wind_speed r, cw_condition_text := r_condition r,
                        cw_last_updated := now\<rparr>
                 else x) rows = map (\<lambda>x. if cw_city_id x = i then snapshot_row i r now else x) rows" for rows
    by (rule map_cong) (simp_all add: snapshot_row_update)
  have k: "cw_city_id (snapshot_row i r now) = i" by (simp add: snapshot_row_def)
  have a: "\<lparr>cw_city_id = i, cw_temp_now = r_temp_now r, cw_temp_min = r_temp_min r,
                   cw_temp_max = r_temp_max r, cw_humidity = r_humidity r,
                   cw_wind_speed = r_wind_speed r, cw_condition_text = r_condition r,
                   cw_last_updated = now\<rparr> = snapshot_row i r now"
    by (simp add: snapshot_row_def)
  show ?thesis
    unfolding sql_upsert_current_def upsert_rows_def m a k
    by (auto split: option.splits)
qed

lemma sql_insert_history_Inr_iff:
  "sql_insert_history i d tm r db = Inr (db', u) \<longleftrightarrow>
     (\<exists>rows. historical_weather db = Some rows \<and> city_exists db i \<and> date_exists db d \<and>
        db' = db\<lparr>historical_weather := Some (rows @
                [history_row_of (auto_increment (map h_history_id rows)) i d tm r])\<rparr>)"
  unfolding sql_insert_history_def history_row_of_def
  by (auto split: option.splits)

lemma sql_select_date_id_Inr_iff:
  "sql_select_date_id full_date db = Inr (db', ids) \<longleftrightarrow>
     db' = db \<and> dim_date db \<noteq> None \<and>
     ids = map d_date_id (filter (\<lambda>r. d_full_date r = full_date) (table_rows (dim_date db)))"
  by (auto simp: sql_select_date_id_def table_rows_def split: option.splits)

lemma sql_insert_date_Inr_iff:
  "sql_insert_date r db = Inr (db', i) \<longleftrightarrow>
     (\<exists>rows. dim_date db = Some rows \<and> d_full_date r \<notin> set (map d_full_date rows) \<and>
        i = auto_increment (map d_date_id rows) \<and>
        db' = db\<lparr>dim_date := Some (rows @ [r\<lparr>d_date_id := i\<rparr>])\<rparr>)"
  by (auto simp: sql_insert_date_def Let_def split: option.splits)

lemma upsert_rows_keys:
  "map cw_city_id (upsert_rows row rows) =
     map cw_city_id rows @ (if cw_city_id row \<in> set (map cw_city_id rows) then [] else [cw_city_id row])"
  by (auto simp: upsert_rows_def intro: map_idI)

lemma upsert_rows_distinct:
  "distinct (map cw_city_id rows) \<Longrightarrow> distinct (map cw_city_id (upsert_rows row rows))"
  by (simp add: upsert_rows_keys)

lemma keeps_insert_ignore_city:
  "sql_insert_ignore_city city lat lon db = Inr (db', u) \<Longrightarrow> keeps db db'"
  by (auto simp: sql_insert_ignore_city_Inr_iff keeps_def table_rows_def one_row_per_city_def
      split: if_splits)

lemma keeps_insert_date: "sql_insert_date r db = Inr (db', i) \<Longrightarrow> keeps db db'"
  by (auto simp: sql_insert_date_Inr_iff keeps_def table_rows_def one_row_per_city_def)

lemma keeps_upsert_current: "sql_upsert_current i r now db = Inr (db', u) \<Longrightarrow> keeps db db'"
  by (auto simp: sql_upsert_current_Inr_iff keeps_def table_rows_def one_row_per_city_def
      upsert_rows_keys)

lemma keeps_insert_history: "sql_insert_history i d tm r db = Inr (db', u) \<Longrightarrow> keeps db db'"
  by (auto simp: sql_insert_history_Inr_iff keeps_def table_rows_def one_row_per_city_def)

lemma keeps_select_city: "sql_select_city_id city db = Inr (db', ids) \<Longrightarrow> keeps db db'"
  by (auto simp: sql_select_city_id_Inr_iff keeps_refl)

lemma keeps_select_date: "sql_select_date_id d db = Inr (db', ids) \<Longrightarrow> keeps db db'"
  by (auto simp: sql_select_date_id_Inr_iff keeps_refl)

lemma execute_keeps:
  assumes "\<And>db db' a. stmt db = Inr (db', a) \<Longrightarrow> keeps db db'"
    and "execute w step stmt con = (con', res)"
  shows "conn_keeps con con'"
proof (cases res)
  case (Inl e)
  with assms(2) have "con' = con" by (auto dest: execute_Inl)
  then show ?thesis by (simp add: conn_keeps_refl)
next
  case (Inr a)
  with assms(2) obtain db where "stmt (working con) = Inr (db, a)" "con' = con\<lparr>working := db\<rparr>"
    by (auto simp: execute_Inr_iff)
  with assms(1) show ?thesis
    by (auto simp: conn_keeps_def keeps_refl intro: keeps_trans)
qed

lemma commit_keeps:
  assumes "commit w step con = (con', res)"
  shows "conn_keeps con con'"
proof (cases res)
  case (Inl e)
  with assms have "con' = con" by (auto dest: commit_Inl)
  then show ?thesis by (simp add: conn_keeps_refl)
next
  case (Inr a)
  with assms have "con' = con\<lparr>committed := working con\<rparr>"
    by (auto simp: commit_Inr_iff)
  then show ?thesis
    by (auto simp: conn_keeps_def keeps_refl)
qed

lemma then_do_keeps:
  assumes "\<And>s s' r. m s = (s', r) \<Longrightarrow> conn_keeps s s'"
    and "\<And>a s s' r. f a s = (s', r) \<Longrightarrow> conn_keeps s s'"
    and "then_do m f s = (s', r)"
  shows "conn_keeps s s'"
proof (cases "m s")
  case (Pair s1 r1)
  show ?thesis
  proof (cases r1)
    case (Inl e)
    with Pair assms(3) have "s' = s1" by (simp add: then_do_def)
    with Pair assms(1) show ?thesis by blast
  next
    case (Inr a)
    with Pair assms(3) have "f a s1 = (s', r)" by (simp add: then_do_def)
    with Pair assms(1,2) show ?thesis by (blast intro: conn_keeps_trans)
  qed
qed

lemma pure_keeps: "pure x s = (s', r) \<Longrightarrow> conn_keeps s s'"
  by (auto simp: pure_def conn_keeps_refl)

lemma return_keeps: "return x s = (s', r) \<Longrightarrow> conn_keeps s s'"
  by (auto simp: return_def conn_keeps_refl)

lemma get_or_create_city_keeps:
  "get_or_create_city w city lat lon con = (con', res) \<Longrightarrow> conn_keeps con con'"
  unfolding get_or_create_city_def
  by (erule then_do_keeps [rotated 2] execute_keeps [rotated] commit_keeps pure_keeps
        keeps_insert_ignore_city keeps_select_city)+


lemma get_or_create_date_keeps:
  "get_or_create_date w date_obj con = (con', res) \<Longrightarrow> conn_keeps con con'"
  unfolding get_or_create_date_def
  apply (erule then_do_keeps [rotated 2])
   apply (erule execute_keeps [rotated], erule keeps_select_date)
  apply (simp split: list.splits)
   apply (erule then_do_keeps [rotated 2] execute_keeps [rotated] commit_keeps return_keeps
        keeps_insert_date)+
  done

lemma write_facts_keeps:
  "write_facts w i d tm r con = (con', res) \<Longrightarrow> conn_keeps con con'"
  unfolding write_facts_def
  by (erule then_do_keeps [rotated 2] execute_keeps [rotated] commit_keeps return_keeps
        keeps_upsert_current keeps_insert_history)+

lemma process_city_keeps:
  "process_city w city con = (con', res) \<Longrightarrow> conn_keeps con con'"
  unfolding process_city_def
  apply (erule then_do_keeps [rotated 2])
   apply (erule pure_keeps)
  apply (simp split: prod.splits)
  apply (erule then_do_keeps [rotated 2] pure_keeps get_or_create_city_keeps
        get_or_create_date_keeps write_facts_keeps)+
  done

lemma process_cities_keeps:
  "process_cities ws i cities results con = (con', res) \<Longrightarrow> conn_keeps con con'"
proof (induction cities arbitrary: i results con)
  case Nil
  then show ?case by (simp add: conn_keeps_refl)
next
  case (Cons city rest)
  obtain con1 r1 where p: "process_city (ws i) city con = (con1, r1)"
    by (cases "process_city (ws i) city con")
  then have k: "conn_keeps con con1" by (rule process_city_keeps)
  show ?case
  proof (cases r1)
    case (Inr t)
    with Cons.prems p have "process_cities ws (Suc i) rest (results @ [Success city t]) con1 = (con', res)"
      by simp
    then have "conn_keeps con1 con'" by (rule Cons.IH)
    with k show ?thesis by (rule conn_keeps_trans)
  next
    case (Inl e)
    show ?thesis
    proof (cases "is_Exception e")
      case True
      with Inl Cons.prems p
      have "process_cities ws (Suc i) rest (results @ [Failure city e]) con1 = (con', res)"
        by simp
      then have "conn_keeps con1 con'" by (rule Cons.IH)
      with k show ?thesis by (rule conn_keeps_trans)
    next
      case False
      with Inl Cons.prems p have "con' = con1" by simp
      with k show ?thesis by simp
    qed
  qed
qed

lemma collect_weather_keeps:
  "collect_weather env cities db = (db', out, ex) \<Longrightarrow> keeps db db'"
proof -
  assume a: "collect_weather env cities db = (db', out, ex)"
  show ?thesis
  proof (cases "connect_fault env")
    case (Some err)
    with a have "db' = db" by (auto simp: collect_weather_def split: if_splits)
    then show ?thesis by (simp add: keeps_refl)
  next
    case None
    obtain con r where p: "process_cities (worlds env) 0 cities [] \<lparr>committed = db, working = db\<rparr> = (con, r)"
      by (cases "process_cities (worlds env) 0 cities [] \<lparr>committed = db, working = db\<rparr>")
    with a None have "db' = committed con"
      by (auto simp: collect_weather_def split: sum.splits)
    moreover from p have "conn_keeps \<lparr>committed = db, working = db\<rparr> con" by (rule process_cities_keeps)
    ultimately show ?thesis by (simp add: conn_keeps_def keeps_refl)
  qed
qed

lemma keeps_create_if_not_exists: "table_rows (create_if_not_exists t) = table_rows t"
  by (simp add: create_if_not_exists_def table_rows_def split: option.splits)

lemma ddl_keeps:
  assumes "\<And>db. keeps db (stmt db)" and "ddl fault step stmt db = (db', res)"
  shows "keeps db db'"
  using assms by (auto simp: ddl_def keeps_refl split: option.splits)

lemma then_do_rel:
  assumes "\<And>s s' r. m s = (s', r) \<Longrightarrow> R s s'"
    and "\<And>a s s' r. f a s = (s', r) \<Longrightarrow> R s s'"
    and "\<And>a b c. R a b \<Longrightarrow> R b c \<Longrightarrow> R a c"
    and "then_do m f s = (s', r)"
  shows "R s s'"
proof (cases "m s")
  case (Pair s1 r1)
  show ?thesis
  proof (cases r1)
    case (Inl e)
    with Pair assms(4) have "s' = s1" by (simp add: then_do_def)
    with Pair assms(1) show ?thesis by blast
  next
    case (Inr a)
    with Pair assms(4) have "f a s1 = (s', r)" by (simp add: then_do_def)
    with Pair assms(1,2,3) show ?thesis by blast
  qed
qed

lemma then_do_keeps_db:
  assumes "\<And>s s' r. m s = (s', r) \<Longrightarrow> keeps s s'"
    and "\<And>a s s' r. f a s = (s', r) \<Longrightarrow> keeps s s'"
    and "then_do m f s = (s', r)"
  shows "keeps s s'"
  using assms(1,2) keeps_trans assms(3) by (rule then_do_rel [where R = keeps])

lemma keeps_create:
  "keeps db (db\<lparr>dim_city := create_if_not_exists (dim_city db)\<rparr>)"
  "keeps db (db\<lparr>dim_date := create_if_not_exists (dim_date db)\<rparr>)"
  "keeps db (db\<lparr>current_weather := create_if_not_exists (current_weather db)\<rparr>)"
  "keeps db (db\<lparr>historical_weather := create_if_not_exists (historical_weather db)\<rparr>)"
  by (simp_all add: keeps_def keeps_create_if_not_exists one_row_per_city_def)

lemma create_tables_keeps: "create_tables fault db = (db', res) \<Longrightarrow> keeps db db'"
  unfolding create_tables_def
  by (erule then_do_keeps_db [rotated 2] ddl_keeps [rotated] | rule keeps_create keeps_refl)+

lemma create_schema_keeps: "create_schema fault db = (db', out, ex) \<Longrightarrow> keeps db db'"
  by (auto simp: create_schema_def split: prod.splits sum.splits if_splits dest: create_tables_keeps)

lemma main_keeps: "main env cities db = (db', out, ex) \<Longrightarrow> keeps db db'"
  by (auto simp: main_def split: prod.splits option.splits
      dest!: create_schema_keeps collect_weather_keeps intro: keeps_trans)

section \<open>What a successful collection leaves\<close>

lemma get_or_create_city_frame:
  assumes "get_or_create_city w city lat lon con = (con', res)"
  shows "current_weather (working con') = current_weather (working con)"
    and "historical_weather (working con') = historical_weather (working con)"
    and "dim_date (working con') = dim_date (working con)"
  using assms
  unfolding get_or_create_city_def then_do_def execute_def commit_def pure_def
    sql_insert_ignore_city_def sql_select_city_id_def
  by (auto split: option.splits sum.splits prod.splits if_splits)

lemma get_or_create_date_frame:
  assumes "get_or_create_date w date_obj con = (con', res)"
  shows "current_weather (working con') = current_weather (working con)"
    and "historical_weather (working con') = historical_weather (working con)"
    and "dim_city (working con') = dim_city (working con)"
  using assms
  unfolding get_or_create_date_def then_do_def execute_def commit_def return_def
    sql_insert_date_def sql_select_date_id_def Let_def
  by (auto split: option.splits sum.splits prod.splits if_splits list.splits)

lemma write_facts_Inr_iff:
  "write_facts w i d tm r con = (con', Inr t) \<longleftrightarrow>
     w_fault w UpsertCurrent = None \<and> w_fault w InsertHistory = None \<and>
     w_fault w CommitFacts = None \<and> t = r_temp_now r \<and>
     city_exists (working con) i \<and> date_exists (working con) d \<and>
     (\<exists>cw hs db. current_weather (working con) = Some cw \<and>
        historical_weather (working con) = Some hs \<and>
        db = (working con)\<lparr>current_weather := Some (upsert_rows (snapshot_row i r (w_db_now w)) cw),
               historical_weather := Some (hs @
                 [history_row_of (auto_increment (map h_history_id hs)) i d tm r])\<rparr> \<and>
        con' = \<lparr>committed = db, working = db\<rparr>)"
  unfolding write_facts_def
  by (auto simp: then_do_Inr_iff execute_Inr_iff commit_Inr_iff return_iff
      sql_upsert_current_Inr_iff sql_insert_history_Inr_iff city_exists_def date_exists_def)


lemma process_city_success:
  assumes "process_city w city con = (con', Inr t)"
  shows "\<exists>lat lon data_list r i ids d cw hs.
    get_city_coordinates w city = Inr (lat, lon) \<and>
    w_forecast w lat lon = Inr data_list \<and>
    aggregate (dt_date (w_now w)) data_list = Inr r \<and>
    t = r_temp_now r \<and>
    city_ids (working con') city = i # ids \<and>
    current_weather (working con) = Some cw \<and>
    historical_weather (working con) = Some hs \<and>
    current_weather (working con') = Some (upsert_rows (snapshot_row i r (w_db_now w)) cw) \<and>
    historical_weather (working con') = Some (hs @
      [history_row_of (auto_increment (map h_history_id hs)) i d (dt_time (w_now w)) r]) \<and>
    date_exists (working con') d \<and>
    committed con' = working con'"
proof -
  from assms obtain lat lon i d data_list r con1 con2 where
    g: "get_city_coordinates w city = Inr (lat, lon)"
    and c: "get_or_create_city w city lat lon con = (con1, Inr i)"
    and dt: "get_or_create_date w (w_now w) con1 = (con2, Inr d)"
    and f: "w_forecast w lat lon = Inr data_list"
    and a: "aggregate (dt_date (w_now w)) data_list = Inr r"
    and wf: "write_facts w i d (dt_time (w_now w)) r con2 = (con', Inr t)"
    unfolding process_city_Inr_iff by blast
  from c obtain ids where ids: "city_ids (working con1) city = i # ids"
    by (auto simp: get_or_create_city_Inr_iff)
  note fc = get_or_create_city_frame [OF c] and fd = get_or_create_date_frame [OF dt]
  from wf obtain cw hs db where
    t: "t = r_temp_now r" and de: "date_exists (working con2) d"
    and cw: "current_weather (working con2) = Some cw"
    and hs: "historical_weather (working con2) = Some hs"
    and db: "db = (working con2)\<lparr>current_weather := Some (upsert_rows (snapshot_row i r (w_db_now w)) cw),
               historical_weather := Some (hs @
                 [history_row_of (auto_increment (map h_history_id hs)) i d (dt_time (w_now w)) r])\<rparr>"
    and con': "con' = \<lparr>committed = db, working = db\<rparr>"
    unfolding write_facts_Inr_iff by blast
  have "city_ids (working con') city = i # ids"
    using ids fd(3) con' db by (simp add: city_ids_def)
  moreover have "current_weather (working con) = Some cw" "historical_weather (working con) = Some hs"
    using cw hs fc fd by simp_all
  moreover have "date_exists (working con') d"
    using de con' db by (simp add: date_exists_def)
  ultimately show ?thesis
    using g f a t con' db by auto
qed

section \<open>The example run\<close>

lemma aggregate_example: "aggregate ''2024-05-01'' forecast_example = Inr rabat_reading"
  by (simp add: aggregate_def temperatures_def forecast_example_def rabat_reading_def)

lemma coordinates_calm: "get_city_coordinates calm city = Inr (34, -7)"
  by (simp add: get_city_coordinates_def calm_def)

lemma resolve_rabat: "get_or_create_city calm ''Rabat'' 34 (-7) fresh = (rabat_known, Inr 1)"
  by (simp add: get_or_create_city_def then_do_def execute_def commit_def pure_def calm_def
     sql_insert_ignore_city_def sql_select_city_id_def fresh_def empty_store_def with_rabat_def
     rabat_known_def rabat_row_def auto_increment_def)

lemma resolve_date: "get_or_create_date calm may_first rabat_known =
    (\<lparr>committed = with_date, working = with_date\<rparr>, Inr 1)"
  by (simp add: get_or_create_date_def then_do_def execute_def commit_def return_def calm_def
     sql_insert_date_def sql_select_date_id_def rabat_known_def with_rabat_def empty_store_def
     with_date_def may_first_def may_first_row_def auto_increment_def)

lemma write_rabat: "write_facts calm 1 1 ''10:00:00'' rabat_reading \<lparr>committed = with_date, working = with_date\<rparr>
    = (rabat_done, Inr 20)"
  by (simp add: write_facts_def then_do_def execute_def commit_def return_def calm_def
     sql_upsert_current_def sql_insert_history_def city_exists_def date_exists_def
     with_date_def with_rabat_def empty_store_def rabat_row_def may_first_row_def
     rabat_done_def rabat_collected_def snapshot_row_def history_row_of_def rabat_reading_def
     auto_increment_def)

lemma process_rabat: "process_city calm ''Rabat'' fresh = (rabat_done, Inr 20)"
proof -
  have w: "w_now calm = may_first" "dt_date may_first = ''2024-05-01''"
    "dt_time may_first = ''10:00:00''" "w_forecast calm 34 (-7) = Inr forecast_example"
    by (simp_all add: calm_def may_first_def)
  show ?thesis
    unfolding process_city_def
    by (simp add: then_do_def pure_def coordinates_calm resolve_rabat w resolve_date
        aggregate_example write_rabat del: One_nat_def)
qed

lemma collect_rabat: "collect_weather calm_run [''Rabat''] empty_store =
   (rabat_collected, [ReportHeader, ReportLine (Success ''Rabat'' 20)], None)"
proof -
  have "worlds calm_run 0 = calm" "connect_fault calm_run = None" by (simp_all add: calm_run_def)
  moreover have "\<lparr>committed = empty_store, working = empty_store\<rparr> = fresh" by (simp add: fresh_def)
  ultimately show ?thesis
    by (simp add: collect_weather_def process_rabat rabat_done_def)
qed

lemma create_schema_calm: "create_schema (\<lambda>step. None) empty_store = (empty_store, [SchemaCreated], None)"
  by (simp add: create_schema_def create_tables_def then_do_def ddl_def empty_store_def
      create_if_not_exists_def)

lemma main_rabat: "main calm_run [''Rabat''] empty_store =
   (rabat_collected, [SchemaCreated, ReportHeader, ReportLine (Success ''Rabat'' 20), ETLComplete], None)"
proof -
  have "schema_fault calm_run = (\<lambda>step. None)" by (simp add: calm_run_def)
  then show ?thesis
    by (simp add: main_def create_schema_calm collect_rabat)
qed

lemma aggregate_next: "aggregate ''2024-05-02'' forecast_next = Inr second_reading"
  by (simp add: aggregate_def temperatures_def forecast_next_def second_reading_def)

lemma process_rabat_again: "process_city breezy ''Rabat'' rabat_done = (rabat_again, Inr 25)"
proof -
  have w: "w_now breezy = may_second" "dt_date may_second = ''2024-05-02''"
    "dt_time may_second = ''09:30:00''" "w_forecast breezy 34 (-7) = Inr forecast_next"
    "get_city_coordinates breezy ''Rabat'' = Inr (34, -7)"
    by (simp_all add: breezy_def may_second_def get_city_coordinates_def)
  have c: "get_or_create_city breezy ''Rabat'' 34 (-7) rabat_done = (rabat_done, Inr 1)"
    by (simp add: get_or_create_city_def then_do_def execute_def commit_def pure_def breezy_def
     sql_insert_ignore_city_def sql_select_city_id_def rabat_done_def rabat_collected_def
     rabat_row_def)
  define db where "db = rabat_collected\<lparr>dim_date := Some [may_first_row, may_second_row]\<rparr>"
  have d: "get_or_create_date breezy may_second rabat_done = (\<lparr>committed = db, working = db\<rparr>, Inr 2)"
    by (simp add: get_or_create_date_def then_do_def execute_def commit_def return_def breezy_def
     sql_insert_date_def sql_select_date_id_def rabat_done_def rabat_collected_def db_def
     may_second_def may_first_row_def may_second_row_def auto_increment_def)
  have f: "write_facts breezy 1 2 ''09:30:00'' second_reading \<lparr>committed = db, working = db\<rparr>
      = (rabat_again, Inr 25)"
    by (simp add: write_facts_def then_do_def execute_def commit_def return_def breezy_def
     sql_upsert_current_def sql_insert_history_def city_exists_def date_exists_def db_def
     rabat_collected_def rabat_row_def may_first_row_def may_second_row_def
     rabat_again_def rabat_collected_again_def snapshot_row_def history_row_of_def
     second_reading_def rabat_reading_def auto_increment_def)
  show ?thesis
    unfolding process_city_def
    by (simp add: then_do_def pure_def w c d aggregate_next f del: One_nat_def)
qed


lemma may_first_fields: "dt_date may_first = ''2024-05-01''" "dt_time may_first = ''10:00:00''"
  by (simp_all add: may_first_def)






lemma stuck_fields:
  "w_now stuck = may_first" "w_db_now stuck = ''2024-05-01 10:00:01''"
  "w_forecast stuck 34 (-7) = Inr forecast_example"
  "get_city_coordinates stuck ''Rabat'' = Inr (34, -7)"
  "w_fault stuck InsertHistory = Some (Error ''Lock wait timeout exceeded'')"
  "w_fault stuck InsertCity = None" "w_fault stuck CommitCity = None" "w_fault stuck SelectCity = None"
  "w_fault stuck SelectDate = None" "w_fault stuck InsertDate = None" "w_fault stuck CommitDate = None"
  "w_fault stuck UpsertCurrent = None"
  by (simp_all add: stuck_def calm_def get_city_coordinates_def)

lemma calm_fields:
  "w_now calm = may_first" "w_db_now calm = ''2024-05-01 10:00:01''"
  "w_forecast calm 34 (-7) = Inr forecast_example"
  "w_fault calm step = None"
  by (simp_all add: calm_def)

lemma resolve_rabat_stuck:
  "get_or_create_city stuck ''Rabat'' 34 (-7) fresh = (rabat_known, Inr 1)"
  by (simp add: get_or_create_city_def then_do_def execute_def commit_def pure_def stuck_fields
     sql_insert_ignore_city_def sql_select_city_id_def fresh_def empty_store_def with_rabat_def
     rabat_known_def rabat_row_def auto_increment_def)

lemma resolve_date_stuck:
  "get_or_create_date stuck may_first rabat_known =
    (\<lparr>committed = with_date, working = with_date\<rparr>, Inr 1)"
  by (simp add: get_or_create_date_def then_do_def execute_def commit_def return_def stuck_fields
     sql_insert_date_def sql_select_date_id_def rabat_known_def with_rabat_def empty_store_def
     with_date_def may_first_def may_first_row_def auto_increment_def)

lemma upsert_rabat_stuck:
  "execute stuck UpsertCurrent (sql_upsert_current 1 rabat_reading (w_db_now stuck))
     \<lparr>committed = with_date, working = with_date\<rparr> = (rabat_pending, Inr ())"
  by (simp add: execute_def stuck_fields sql_upsert_current_def city_exists_def with_date_def
     with_rabat_def empty_store_def rabat_row_def rabat_pending_def snapshot_row_def)

lemma history_rabat_stuck:
  "execute stuck InsertHistory (sql_insert_history 1 1 (dt_time (w_now stuck)) rabat_reading)
     rabat_pending = (rabat_pending, Inl (Error ''Lock wait timeout exceeded''))"
  by (simp add: execute_def stuck_fields)

lemma resolve_fes_pending:
  "get_or_create_city calm ''Fes'' 34 (-7) rabat_pending =
     (\<lparr>committed = snapshot_durable, working = snapshot_durable\<rparr>, Inr 2)"
  by (simp add: get_or_create_city_def then_do_def execute_def commit_def pure_def calm_fields
     sql_insert_ignore_city_def sql_select_city_id_def rabat_pending_def with_date_def
     with_rabat_def empty_store_def snapshot_durable_def rabat_row_def fes_row_def
     auto_increment_def)

lemma resolve_date_fes:
  "get_or_create_date calm may_first \<lparr>committed = snapshot_durable, working = snapshot_durable\<rparr> =
     (\<lparr>committed = snapshot_durable, working = snapshot_durable\<rparr>, Inr 1)"
  by (simp add: get_or_create_date_def then_do_def execute_def return_def calm_fields
     sql_select_date_id_def snapshot_durable_def may_first_fields may_first_row_def)

lemma write_fes:
  "write_facts calm 2 1 ''10:00:00'' rabat_reading
     \<lparr>committed = snapshot_durable, working = snapshot_durable\<rparr> =
     (\<lparr>committed = lopsided, working = lopsided\<rparr>, Inr 20)"
  by (simp add: write_facts_def then_do_def execute_def commit_def return_def calm_fields
     sql_upsert_current_def sql_insert_history_def city_exists_def date_exists_def
     snapshot_durable_def lopsided_def rabat_row_def fes_row_def may_first_row_def
     snapshot_row_def history_row_of_def rabat_reading_def auto_increment_def)

lemma process_fes_pending:
  "process_city calm ''Fes'' rabat_pending = (\<lparr>committed = lopsided, working = lopsided\<rparr>, Inr 20)"
  unfolding process_city_def
  by (simp add: then_do_def pure_def coordinates_calm calm_fields may_first_fields
      resolve_fes_pending resolve_date_fes aggregate_example write_fes del: One_nat_def)




section \<open>The history\<close>

lemma history_append:
  assumes "historical_weather db = Some hs" "historical_weather db' = Some (hs @ [h])"
  shows "table_rows (historical_weather db') = table_rows (historical_weather db) @ [h]"
    and "history db' j = history db j @ (if h_city_id h = j then [h] else [])"
  using assms by (simp_all add: table_rows_def history_def)

lemma h_city_id_history_row_of: "h_city_id (history_row_of k i d t r) = i"
  by (simp add: history_row_of_def)

lemma process_city_history:
  assumes "process_city w city con = (con', Inr t)"
  shows "\<exists>i ids h. city_ids (working con') city = i # ids \<and> h_city_id h = i \<and>
      table_rows (historical_weather (working con')) =
        table_rows (historical_weather (working con)) @ [h] \<and>
      history (working con') i = history (working con) i @ [h] \<and>
      length (history (working con') i) = length (history (working con) i) + 1 \<and>
      (\<forall>j. j \<noteq> i \<longrightarrow> history (working con') j = history (working con) j) \<and>
      committed con' = working con'"
proof -
  from process_city_success [OF assms] obtain i ids d r hs where
    ids: "city_ids (working con') city = i # ids"
    and hs: "historical_weather (working con) = Some hs"
    and hs': "historical_weather (working con') = Some (hs @
      [history_row_of (auto_increment (map h_history_id hs)) i d (dt_time (w_now w)) r])"
    and c: "committed con' = working con'"
    by blast
  let ?h = "history_row_of (auto_increment (map h_history_id hs)) i d (dt_time (w_now w)) r"
  note a = history_append [OF hs hs']
  have "h_city_id ?h = i" by (rule h_city_id_history_row_of)
  with ids a c show ?thesis
    by (intro exI [of _ i] exI [of _ ids] exI [of _ ?h]) simp
qed

lemma collect_one_history:
  assumes "collect_weather env [city] db = (db', [ReportHeader, ReportLine (Success city t)], None)"
  shows "\<exists>i ids h. city_ids db' city = i # ids \<and> h_city_id h = i \<and>
      table_rows (historical_weather db') = table_rows (historical_weather db) @ [h]"
proof -
  let ?con = "\<lparr>committed = db, working = db\<rparr>"
  from assms have nf: "connect_fault env = None"
    by (auto simp: collect_weather_def split: option.splits if_splits)
  obtain con1 r1 where p: "process_city (worlds env 0) city ?con = (con1, r1)"
    by (cases "process_city (worlds env 0) city ?con")
  from assms nf p have "r1 = Inr t \<and> db' = committed con1"
    by (auto simp: collect_weather_def split: sum.splits if_splits)
  with p process_city_history [of "worlds env 0" city ?con con1 t]
  show ?thesis by auto
qed

text \<open>
  Claim C7. The historical table is append-only. A successful collection for a city
  adds exactly one row to it, a row of that city, behind the rows that were there:
  the history of the city grows by exactly one row, the history of every other city
  stays as it was, and the new row is committed. A batch of one city that reports
  success leaves the stored table one row of that city longer. No collection, whether
  it succeeds or fails, and no run of the whole program, changes or removes a row
  that was there: the earlier rows are a prefix of the later ones.
\<close>

theorem history_append_only:
  "(process_city w city con = (con', Inr t) \<longrightarrow>
      (\<exists>i ids h. city_ids (working con') city = i # ids \<and> h_city_id h = i \<and>
         table_rows (historical_weather (working con')) =
           table_rows (historical_weather (working con)) @ [h] \<and>
         history (working con') i = history (working con) i @ [h] \<and>
         length (history (working con') i) = length (history (working con) i) + 1 \<and>
         (\<forall>j. j \<noteq> i \<longrightarrow> history (working con') j = history (working con) j) \<and>
         committed con' = working con')) \<and>
   (collect_weather env [city] db = (db', [ReportHeader, ReportLine (Success city t)], None) \<longrightarrow>
      (\<exists>i ids h. city_ids db' city = i # ids \<and> h_city_id h = i \<and>
         table_rows (historical_weather db') = table_rows (historical_weather db) @ [h])) \<and>
   (process_city w city con = (con', res) \<longrightarrow>
      prefix (table_rows (historical_weather (working con)))
             (table_rows (historical_weather (working con')))) \<and>
   (main env cities db = (db', out, ex) \<longrightarrow>
      prefix (table_rows (historical_weather db)) (table_rows (historical_weather db')))"
  using process_city_history [of w city con con' t]
    collect_one_history [of env city db db' t]
    process_city_keeps [of w city con con' res]
    main_keeps [of env cities db db' out ex]
  unfolding conn_keeps_def keeps_def by blast

theorem history_append_only_witness:
  "process_city calm ''Rabat'' fresh = (rabat_done, Inr 20) \<and>
   collect_weather calm_run [''Rabat''] empty_store =
     (rabat_collected, [ReportHeader, ReportLine (Success ''Rabat'' 20)], None) \<and>
   main calm_run [''Rabat''] empty_store =
     (rabat_collected, [SchemaCreated, ReportHeader, ReportLine (Success ''Rabat'' 20), ETLComplete], None) \<and>
   (\<exists>i ids h. city_ids (working rabat_done) ''Rabat'' = i # ids \<and> h_city_id h = i \<and>
      table_rows (historical_weather (working rabat_done)) =
        table_rows (historical_weather (working fresh)) @ [h] \<and>
      length (history (working rabat_done) i) = length (history (working fresh) i) + 1) \<and>
   (\<exists>i ids h. city_ids rabat_collected ''Rabat'' = i # ids \<and> h_city_id h = i \<and>
      table_rows (historical_weather rabat_collected) =
        table_rows (historical_weather empty_store) @ [h]) \<and>
   prefix (table_rows (historical_weather (working fresh)))
          (table_rows (historical_weather (working rabat_done))) \<and>
   prefix (table_rows (historical_weather empty_store))
          (table_rows (historical_weather rabat_collected))"
proof -
  note t = history_append_only [where w = calm and city = "''Rabat''" and con = fresh
      and con' = rabat_done and t = 20 and env = calm_run and db = empty_store
      and db' = rabat_collected and res = "Inr 20" and cities = "[''Rabat'']"
      and out = "[SchemaCreated, ReportHeader, ReportLine (Success ''Rabat'' 20), ETLComplete]"
      and ex = None]
  from t process_rabat collect_rabat main_rabat show ?thesis
    by (simp del: One_nat_def) blast
qed

section \<open>The snapshot\<close>

lemma filter_key_distinct:
  assumes "distinct (map f rows)" "x \<in> set rows"
  shows "filter (\<lambda>y. f y = f x) rows = [x]"
  using assms
proof (induction rows)
  case Nil
  then show ?case by simp
next
  case (Cons a rows)
  show ?case
  proof (cases "a = x")
    case True
    with Cons.prems have "\<forall>y\<in>set rows. f y \<noteq> f x" by (metis distinct.simps(2) imageI list.simps(9) list.set_map)
    then have "filter (\<lambda>y. f y = f x) rows = []" by (simp add: filter_empty_conv)
    with True show ?thesis by simp
  next
    case False
    with Cons.prems have "x \<in> set rows" "f a \<noteq> f x" by auto
    with Cons show ?thesis by simp
  qed
qed

lemma upsert_rows_same:
  assumes "distinct (map cw_city_id rows)"
  shows "filter (\<lambda>x. cw_city_id x = cw_city_id row) (upsert_rows row rows) = [row]"
proof (cases "cw_city_id row \<in> set (map cw_city_id rows)")
  case False
  then have "filter (\<lambda>x. cw_city_id x = cw_city_id row) rows = []"
    unfolding filter_empty_conv by (metis imageI list.set_map)
  with False show ?thesis by (simp add: upsert_rows_def)
next
  case True
  have d: "distinct (map cw_city_id (upsert_rows row rows))"
    using assms by (rule upsert_rows_distinct)
  from True have "row \<in> set (upsert_rows row rows)"
    by (auto simp: upsert_rows_def)
  with d show ?thesis by (rule filter_key_distinct)
qed

lemma filter_replace_other:
  assumes "j \<noteq> cw_city_id row"
  shows "filter (\<lambda>x. cw_city_id x = j) (map (\<lambda>x. if cw_city_id x = cw_city_id row then row else x) rows)
       = filter (\<lambda>x. cw_city_id x = j) rows"
  using assms by (induction rows) auto

lemma upsert_rows_other:
  assumes "j \<noteq> cw_city_id row"
  shows "filter (\<lambda>x. cw_city_id x = j) (upsert_rows row rows) = filter (\<lambda>x. cw_city_id x = j) rows"
  using assms filter_replace_other [OF assms] by (simp add: upsert_rows_def)


lemma cw_city_id_snapshot_row: "cw_city_id (snapshot_row i r now) = i"
  by (simp add: snapshot_row_def)

lemma snapshot_upserted:
  assumes "current_weather db = Some cw" "one_row_per_city db"
    and "current_weather db' = Some (upsert_rows (snapshot_row i r now) cw)"
  shows "snapshot db' i = [snapshot_row i r now]"
    and "j \<noteq> i \<Longrightarrow> snapshot db' j = snapshot db j"
    and "one_row_per_city db'"
proof -
  from assms(1,2) have d: "distinct (map cw_city_id cw)"
    by (simp add: one_row_per_city_def table_rows_def)
  from upsert_rows_same [OF d, of "snapshot_row i r now"] assms(3)
  show "snapshot db' i = [snapshot_row i r now]"
    by (simp add: snapshot_def table_rows_def cw_city_id_snapshot_row)
  from upsert_rows_distinct [OF d] assms(3)
  show "one_row_per_city db'" by (simp add: one_row_per_city_def table_rows_def)
  assume "j \<noteq> i"
  then have "j \<noteq> cw_city_id (snapshot_row i r now)" by (simp add: cw_city_id_snapshot_row)
  from upsert_rows_other [OF this] assms(1,3)
  show "snapshot db' j = snapshot db j" by (simp add: snapshot_def table_rows_def)
qed

lemma process_city_snapshot:
  assumes "process_city w city con = (con', Inr t)" "one_row_per_city (working con)"
  shows "\<exists>lat lon data_list r i ids.
     get_city_coordinates w city = Inr (lat, lon) \<and>
     w_forecast w lat lon = Inr data_list \<and>
     aggregate (dt_date (w_now w)) data_list = Inr r \<and>
     city_ids (committed con') city = i # ids \<and>
     snapshot (committed con') i = [snapshot_row i r (w_db_now w)] \<and>
     (\<forall>j. j \<noteq> i \<longrightarrow> snapshot (committed con') j = snapshot (working con) j) \<and>
     one_row_per_city (committed con')"
proof -
  from process_city_success [OF assms(1)] obtain lat lon data_list r i ids cw where
    a: "get_city_coordinates w city = Inr (lat, lon)" "w_forecast w lat lon = Inr data_list"
      "aggregate (dt_date (w_now w)) data_list = Inr r"
    and ids: "city_ids (working con') city = i # ids"
    and cw: "current_weather (working con) = Some cw"
    and cw': "current_weather (working con') = Some (upsert_rows (snapshot_row i r (w_db_now w)) cw)"
    and c: "committed con' = working con'"
    by blast
  note s = snapshot_upserted [OF cw assms(2) cw']
  have "get_city_coordinates w city = Inr (lat, lon) \<and>
     w_forecast w lat lon = Inr data_list \<and>
     aggregate (dt_date (w_now w)) data_list = Inr r \<and>
     city_ids (committed con') city = i # ids \<and>
     snapshot (committed con') i = [snapshot_row i r (w_db_now w)] \<and>
     (\<forall>j. j \<noteq> i \<longrightarrow> snapshot (committed con') j = snapshot (working con) j) \<and>
     one_row_per_city (committed con')"
    using a ids c s by simp
  then show ?thesis by blast
qed

lemma process_city_same_ids:
  assumes "process_city w city con = (con', Inr t)"
  shows "city_ids (working con') city =
     (if city_ids (working con) city = [] then [hd (city_ids (working con') city)]
      else city_ids (working con) city)"
proof -
  from assms obtain lat lon i d r con1 con2 where
    c: "get_or_create_city w city lat lon con = (con1, Inr i)"
    and dt: "get_or_create_date w (w_now w) con1 = (con2, Inr d)"
    and wf: "write_facts w i d (dt_time (w_now w)) r con2 = (con', Inr t)"
    unfolding process_city_Inr_iff by blast
  have "dim_city (working con') = dim_city (working con2)"
    using wf unfolding write_facts_Inr_iff by auto
  with get_or_create_date_frame(3) [OF dt]
  have "city_ids (working con') city = city_ids (working con1) city"
    by (simp add: city_ids_def)
  with get_or_create_city_rows(1) [OF c] show ?thesis by simp
qed

lemma one_row_length:
  "one_row_per_city db \<Longrightarrow> snapshot db i \<noteq> [] \<Longrightarrow> length (snapshot db i) = 1"
proof -
  assume d: "one_row_per_city db" and n: "snapshot db i \<noteq> []"
  then obtain x where x: "x \<in> set (table_rows (current_weather db))" "cw_city_id x = i"
    by (auto simp: snapshot_def filter_empty_conv)
  from d have "distinct (map cw_city_id (table_rows (current_weather db)))"
    by (simp add: one_row_per_city_def)
  from filter_key_distinct [OF this x(1)] x(2) show ?thesis
    by (simp add: snapshot_def)
qed

lemma keeps_snapshot:
  assumes "keeps db db'" "snapshot db i \<noteq> []"
  shows "snapshot db' i \<noteq> []"
proof -
  from assms(2) have "i \<in> set (map cw_city_id (table_rows (current_weather db)))"
    by (auto simp: snapshot_def filter_empty_conv)
  moreover from assms(1) have "set (map cw_city_id (table_rows (current_weather db)))
      \<subseteq> set (map cw_city_id (table_rows (current_weather db')))"
    unfolding keeps_def by (meson set_mono_prefix)
  ultimately have "i \<in> set (map cw_city_id (table_rows (current_weather db')))" by blast
  then show ?thesis by (auto simp: snapshot_def filter_empty_conv)
qed

lemma keeps_one_row:
  assumes "keeps db db'" "one_row_per_city db" "snapshot db i \<noteq> []"
  shows "length (snapshot db' i) = 1"
  using assms by (meson keeps_def keeps_snapshot one_row_length)

lemma two_runs_snapshot:
  assumes r1: "process_city w1 city con = (con1, Inr t1)"
    and r2: "process_city w2 city con1 = (con2, Inr t2)"
    and inv: "one_row_per_city (working con)"
  shows "\<exists>lat lon data_list r i ids.
     get_city_coordinates w2 city = Inr (lat, lon) \<and>
     w_forecast w2 lat lon = Inr data_list \<and>
     aggregate (dt_date (w_now w2)) data_list = Inr r \<and>
     city_ids (committed con1) city = i # ids \<and>
     city_ids (committed con2) city = i # ids \<and>
     snapshot (committed con2) i = [snapshot_row i r (w_db_now w2)]"
proof -
  from process_city_snapshot [OF r1 inv] process_city_success [OF r1]
  have inv1: "one_row_per_city (working con1)" and c1: "committed con1 = working con1"
    and ne: "city_ids (working con1) city \<noteq> []"
    by auto
  from process_city_success [OF r2] have c2: "committed con2 = working con2" by blast
  from process_city_same_ids [OF r2] ne c1 c2
  have same: "city_ids (committed con2) city = city_ids (committed con1) city" by simp
  from process_city_snapshot [OF r2 inv1] same show ?thesis by metis
qed

text \<open>
  Claim C6. The snapshot table holds exactly one row per city after the city's first
  write. When the primary key holds before (at most one row per city), a successful
  collection for a city leaves, committed, exactly one row for the city's id: the row
  of this run's reading and of the store's time; the rows of the other ids are as they
  were. After two successful collections in a row for a city the one row of its id
  (the same id both times) holds the values of the second. No collection, whether it
  succeeds or fails, and no run of the whole program, breaks the primary key or
  removes the row of an id that had one: such an id has exactly one row afterwards.
\<close>

theorem snapshot_one_row_per_city:
  "(process_city w city con = (con', Inr t) \<longrightarrow> one_row_per_city (working con) \<longrightarrow>
      (\<exists>lat lon data_list r i ids.
         get_city_coordinates w city = Inr (lat, lon) \<and>
         w_forecast w lat lon = Inr data_list \<and>
         aggregate (dt_date (w_now w)) data_list = Inr r \<and>
         city_ids (committed con') city = i # ids \<and>
         snapshot (committed con') i = [snapshot_row i r (w_db_now w)] \<and>
         (\<forall>j. j \<noteq> i \<longrightarrow> snapshot (committed con') j = snapshot (working con) j) \<and>
         one_row_per_city (committed con'))) \<and>
   (process_city w1 city con = (con1, Inr t1) \<longrightarrow> process_city w2 city con1 = (con2, Inr t2) \<longrightarrow>
    one_row_per_city (working con) \<longrightarrow>
      (\<exists>lat lon data_list r i ids.
         get_city_coordinates w2 city = Inr (lat, lon) \<and>
         w_forecast w2 lat lon = Inr data_list \<and>
         aggregate (dt_date (w_now w2)) data_list = Inr r \<and>
         city_ids (committed con1) city = i # ids \<and>
         city_ids (committed con2) city = i # ids \<and>
         snapshot (committed con2) i = [snapshot_row i r (w_db_now w2)])) \<and>
   (process_city w city con = (con', res) \<longrightarrow> one_row_per_city (working con) \<longrightarrow>
      one_row_per_city (working con') \<and>
      (\<forall>i. snapshot (working con) i \<noteq> [] \<longrightarrow> length (snapshot (working con') i) = 1)) \<and>
   (main env cities db = (db', out, ex) \<longrightarrow> one_row_per_city db \<longrightarrow>
      one_row_per_city db' \<and>
      (\<forall>i. snapshot db i \<noteq> [] \<longrightarrow> length (snapshot db' i) = 1))"
proof (intro conjI)
  show "process_city w city con = (con', Inr t) \<longrightarrow> one_row_per_city (working con) \<longrightarrow>
      (\<exists>lat lon data_list r i ids.
         get_city_coordinates w city = Inr (lat, lon) \<and>
         w_forecast w lat lon = Inr data_list \<and>
         aggregate (dt_date (w_now w)) data_list = Inr r \<and>
         city_ids (committed con') city = i # ids \<and>
         snapshot (committed con') i = [snapshot_row i r (w_db_now w)] \<and>
         (\<forall>j. j \<noteq> i \<longrightarrow> snapshot (committed con') j = snapshot (working con) j) \<and>
         one_row_per_city (committed con'))"
    using process_city_snapshot by blast
  show "process_city w1 city con = (con1, Inr t1) \<longrightarrow> process_city w2 city con1 = (con2, Inr t2) \<longrightarrow>
    one_row_per_city (working con) \<longrightarrow>
      (\<exists>lat lon data_list r i ids.
         get_city_coordinates w2 city = Inr (lat, lon) \<and>
         w_forecast w2 lat lon = Inr data_list \<and>
         aggregate (dt_date (w_now w2)) data_list = Inr r \<and>
         city_ids (committed con1) city = i # ids \<and>
         city_ids (committed con2) city = i # ids \<and>
         snapshot (committed con2) i = [snapshot_row i r (w_db_now w2)])"
    using two_runs_snapshot by blast
  show "process_city w city con = (con', res) \<longrightarrow> one_row_per_city (working con) \<longrightarrow>
      one_row_per_city (working con') \<and>
      (\<forall>i. snapshot (working con) i \<noteq> [] \<longrightarrow> length (snapshot (working con') i) = 1)"
  proof (intro impI)
    assume "process_city w city con = (con', res)" and inv: "one_row_per_city (working con)"
    then have k: "keeps (working con) (working con')"
      using process_city_keeps by (auto simp: conn_keeps_def)
    with inv show "one_row_per_city (working con') \<and>
      (\<forall>i. snapshot (working con) i \<noteq> [] \<longrightarrow> length (snapshot (working con') i) = 1)"
      using keeps_one_row by (auto simp: keeps_def)
  qed
  show "main env cities db = (db', out, ex) \<longrightarrow> one_row_per_city db \<longrightarrow>
      one_row_per_city db' \<and>
      (\<forall>i. snapshot db i \<noteq> [] \<longrightarrow> length (snapshot db' i) = 1)"
  proof (intro impI)
    assume "main env cities db = (db', out, ex)" and inv: "one_row_per_city db"
    then have k: "keeps db db'" using main_keeps by blast
    with inv show "one_row_per_city db' \<and>
      (\<forall>i. snapshot db i \<noteq> [] \<longrightarrow> length (snapshot db' i) = 1)"
      using keeps_one_row by (auto simp: keeps_def)
  qed
qed

lemma one_row_fresh: "one_row_per_city (working fresh)"
  by (simp add: one_row_per_city_def table_rows_def fresh_def empty_store_def)

lemma city_ids_rabat_done: "city_ids (committed rabat_done) ''Rabat'' = [1]"
  by (simp add: city_ids_def table_rows_def rabat_done_def rabat_collected_def rabat_row_def)

theorem snapshot_one_row_per_city_witness:
  "process_city calm ''Rabat'' fresh = (rabat_done, Inr 20) \<and>
   process_city breezy ''Rabat'' rabat_done = (rabat_again, Inr 25) \<and>
   one_row_per_city (working fresh) \<and>
   main calm_run [''Rabat''] empty_store =
     (rabat_collected, [SchemaCreated, ReportHeader, ReportLine (Success ''Rabat'' 20), ETLComplete], None) \<and>
   one_row_per_city empty_store \<and>
   snapshot (committed rabat_done) 1 = [snapshot_row 1 rabat_reading ''2024-05-01 10:00:01''] \<and>
   snapshot (committed rabat_again) 1 = [snapshot_row 1 second_reading ''2024-05-02 09:30:02''] \<and>
   one_row_per_city (working rabat_done) \<and> one_row_per_city rabat_collected"
proof -
  note t = snapshot_one_row_per_city [where w = calm and city = "''Rabat''" and con = fresh
      and con' = rabat_done and t = 20 and ?w1.0 = calm and ?con1.0 = rabat_done and ?t1.0 = 20
      and ?w2.0 = breezy and ?con2.0 = rabat_again and ?t2.0 = 25 and res = "Inr 20"
      and env = calm_run and cities = "[''Rabat'']" and db = empty_store and db' = rabat_collected
      and out = "[SchemaCreated, ReportHeader, ReportLine (Success ''Rabat'' 20), ETLComplete]"
      and ex = None]
  have e: "one_row_per_city empty_store"
    by (simp add: one_row_per_city_def table_rows_def empty_store_def)
  have w1: "get_city_coordinates calm ''Rabat'' = Inr (34, -7)"
    "w_forecast calm 34 (-7) = Inr forecast_example" "dt_date (w_now calm) = ''2024-05-01''"
    "w_db_now calm = ''2024-05-01 10:00:01''"
    by (simp_all add: get_city_coordinates_def calm_def may_first_def)
  have w2: "get_city_coordinates breezy ''Rabat'' = Inr (34, -7)"
    "w_forecast breezy 34 (-7) = Inr forecast_next" "dt_date (w_now breezy) = ''2024-05-02''"
    "w_db_now breezy = ''2024-05-02 09:30:02''"
    by (simp_all add: get_city_coordinates_def breezy_def may_second_def)
  from t process_rabat one_row_fresh
  obtain r i ids where a: "aggregate ''2024-05-01'' forecast_example = Inr r"
    "city_ids (committed rabat_done) ''Rabat'' = i # ids"
    "snapshot (committed rabat_done) i = [snapshot_row i r ''2024-05-01 10:00:01'']"
    unfolding w1 by (auto simp: w1)
  then have s1: "snapshot (committed rabat_done) 1 = [snapshot_row 1 rabat_reading ''2024-05-01 10:00:01'']"
    by (simp add: aggregate_example city_ids_rabat_done)
  from t process_rabat process_rabat_again one_row_fresh
  obtain r i ids where b: "aggregate ''2024-05-02'' forecast_next = Inr r"
    "city_ids (committed rabat_done) ''Rabat'' = i # ids"
    "snapshot (committed rabat_again) i = [snapshot_row i r ''2024-05-02 09:30:02'']"
    by (auto simp: w2)
  then have s2: "snapshot (committed rabat_again) 1 = [snapshot_row 1 second_reading ''2024-05-02 09:30:02'']"
    by (simp add: aggregate_next city_ids_rabat_done)
  from t process_rabat one_row_fresh have o1: "one_row_per_city (working rabat_done)" by blast
  from t main_rabat e have o2: "one_row_per_city rabat_collected" by blast
  from process_rabat process_rabat_again one_row_fresh main_rabat e s1 s2 o1 o2
  show ?thesis by blast
qed

section \<open>Humidity, wind and condition\<close>

lemma temperatures_total:
  "\<exists>tn tmin tmax. temperatures today_str (e0 # others) = Inr (tn, tmin, tmax)"
proof (cases "todays today_str (e0 # others) = []")
  case True
  then show ?thesis by (simp add: temperatures_fallback)
next
  case False
  then show ?thesis by (simp add: temperatures_today)
qed

lemma aggregate_conditions:
  assumes "e_weather e0 = c # cs"
  shows "\<exists>tn tmin tmax. aggregate today_str (e0 # others) =
     Inr \<lparr>r_temp_now = tn, r_temp_min = tmin, r_temp_max = tmax,
          r_humidity = e_humidity e0, r_wind_speed = e_wind_speed e0, r_condition = c\<rparr>"
proof -
  from temperatures_total obtain tn tmin tmax where
    "temperatures today_str (e0 # others) = Inr (tn, tmin, tmax)" by blast
  with assms show ?thesis by (simp add: aggregate_def)
qed

lemma aggregate_Inr:
  assumes "aggregate today_str data_list = Inr r"
  shows "\<exists>e0 others c cs. data_list = e0 # others \<and> e_weather e0 = c # cs \<and>
     r_humidity r = e_humidity e0 \<and> r_wind_speed r = e_wind_speed e0 \<and> r_condition r = c"
proof (cases data_list)
  case Nil
  with assms show ?thesis by (simp add: aggregate_def temperatures_def)
next
  case (Cons e0 others)
  show ?thesis
  proof (cases "e_weather e0")
    case Nil
    with assms Cons show ?thesis
      by (auto simp: aggregate_def and_then_Inr_iff)
  next
    case (Cons c cs)
    from aggregate_conditions [OF this, of today_str others] assms \<open>data_list = e0 # others\<close> Cons
    show ?thesis by auto
  qed
qed

lemma upsert_rows_mem:
  "row \<in> set (upsert_rows row rows)"
  "x \<in> set (upsert_rows row rows) \<Longrightarrow> cw_city_id x = cw_city_id row \<Longrightarrow> x = row"
  by (auto simp: upsert_rows_def image_iff split: if_splits)

lemma process_city_conditions:
  assumes "process_city w city con = (con', Inr t)"
  shows "\<exists>lat lon e0 others c cs i ids h.
     get_city_coordinates w city = Inr (lat, lon) \<and>
     w_forecast w lat lon = Inr (e0 # others) \<and> e_weather e0 = c # cs \<and>
     city_ids (committed con') city = i # ids \<and>
     snapshot (committed con') i \<noteq> [] \<and>
     (\<forall>x \<in> set (snapshot (committed con') i).
        cw_humidity x = e_humidity e0 \<and> cw_wind_speed x = e_wind_speed e0 \<and>
        cw_condition_text x = c) \<and>
     table_rows (historical_weather (committed con')) =
       table_rows (historical_weather (working con)) @ [h] \<and>
     h_city_id h = i \<and> h_humidity h = e_humidity e0 \<and>
     h_wind_speed h = e_wind_speed e0 \<and> h_condition_text h = c"
proof -
  from process_city_success [OF assms] obtain lat lon data_list r i ids d cw hs where
    a: "get_city_coordinates w city = Inr (lat, lon)" "w_forecast w lat lon = Inr data_list"
    and ag: "aggregate (dt_date (w_now w)) data_list = Inr r"
    and ids: "city_ids (working con') city = i # ids"
    and hs: "historical_weather (working con) = Some hs"
    and cw': "current_weather (working con') = Some (upsert_rows (snapshot_row i r (w_db_now w)) cw)"
    and hs': "historical_weather (working con') = Some (hs @
      [history_row_of (auto_increment (map h_history_id hs)) i d (dt_time (w_now w)) r])"
    and c: "committed con' = working con'"
    by blast
  from aggregate_Inr [OF ag] obtain e0 others c cs where
    f: "data_list = e0 # others" "e_weather e0 = c # cs"
    and r: "r_humidity r = e_humidity e0" "r_wind_speed r = e_wind_speed e0" "r_condition r = c"
    by blast
  let ?row = "snapshot_row i r (w_db_now w)"
  let ?h = "history_row_of (auto_increment (map h_history_id hs)) i d (dt_time (w_now w)) r"
  have k: "cw_city_id ?row = i" by (simp add: snapshot_row_def)
  have s1: "snapshot (committed con') i \<noteq> []"
    using upsert_rows_mem(1) [of ?row cw] k cw' c
    by (auto simp: snapshot_def table_rows_def filter_empty_conv)
  have s2: "\<forall>x \<in> set (snapshot (committed con') i). x = ?row"
    using upsert_rows_mem(2) [of _ ?row cw] k cw' c
    by (auto simp: snapshot_def table_rows_def)
  have s3: "\<forall>x \<in> set (snapshot (committed con') i).
        cw_humidity x = e_humidity e0 \<and> cw_wind_speed x = e_wind_speed e0 \<and>
        cw_condition_text x = c"
    using s2 r by (auto simp: snapshot_row_def)
  have h1: "table_rows (historical_weather (committed con')) =
       table_rows (historical_weather (working con)) @ [?h]"
    using hs hs' c by (simp add: table_rows_def)
  have h2: "h_city_id ?h = i \<and> h_humidity ?h = e_humidity e0 \<and>
     h_wind_speed ?h = e_wind_speed e0 \<and> h_condition_text ?h = c"
    using r by (simp add: history_row_of_def)
  have "get_city_coordinates w city = Inr (lat, lon) \<and>
     w_forecast w lat lon = Inr (e0 # others) \<and> e_weather e0 = c # cs \<and>
     city_ids (committed con') city = i # ids \<and>
     snapshot (committed con') i \<noteq> [] \<and>
     (\<forall>x \<in> set (snapshot (committed con') i).
        cw_humidity x = e_humidity e0 \<and> cw_wind_speed x = e_wind_speed e0 \<and>
        cw_condition_text x = c) \<and>
     table_rows (historical_weather (committed con')) =
       table_rows (historical_weather (working con)) @ [?h] \<and>
     h_city_id ?h = i \<and> h_humidity ?h = e_humidity e0 \<and>
     h_wind_speed ?h = e_wind_speed e0 \<and> h_condition_text ?h = c"
    using a f ids c s1 s3 h1 h2 by simp
  then show ?thesis by blast
qed

text \<open>
  Claim C4. Humidity, wind speed and condition text come from the first entry of
  the unfiltered forecast sequence. For every collection day, whether or not the first
  entry is of that day, the aggregation of a sequence whose first entry has a
  description yields the humidity and the wind speed of the first entry and its first
  description; whenever the aggregation returns, its result holds these. A successful
  collection for a city writes them: every snapshot row of the city's id, and the
  history row it appends, hold the humidity, the wind speed and the first description
  of the first entry of the forecast the provider returned.
\<close>

theorem conditions_from_first_entry:
  "(e_weather e0 = c # cs \<longrightarrow>
      (\<exists>tn tmin tmax. aggregate today_str (e0 # others) =
         Inr \<lparr>r_temp_now = tn, r_temp_min = tmin, r_temp_max = tmax,
              r_humidity = e_humidity e0, r_wind_speed = e_wind_speed e0,
              r_condition = c\<rparr>)) \<and>
   (aggregate today_str data_list = Inr r \<longrightarrow>
      (\<exists>e0 others c cs. data_list = e0 # others \<and> e_weather e0 = c # cs \<and>
         r_humidity r = e_humidity e0 \<and> r_wind_speed r = e_wind_speed e0 \<and>
         r_condition r = c)) \<and>
   (process_city w city con = (con', Inr t) \<longrightarrow>
      (\<exists>lat lon e0 others c cs i ids h.
         get_city_coordinates w city = Inr (lat, lon) \<and>
         w_forecast w lat lon = Inr (e0 # others) \<and> e_weather e0 = c # cs \<and>
         city_ids (committed con') city = i # ids \<and>
         snapshot (committed con') i \<noteq> [] \<and>
         (\<forall>x \<in> set (snapshot (committed con') i).
            cw_humidity x = e_humidity e0 \<and> cw_wind_speed x = e_wind_speed e0 \<and>
            cw_condition_text x = c) \<and>
         table_rows (historical_weather (committed con')) =
           table_rows (historical_weather (working con)) @ [h] \<and>
         h_city_id h = i \<and> h_humidity h = e_humidity e0 \<and>
         h_wind_speed h = e_wind_speed e0 \<and> h_condition_text h = c))"
  using aggregate_conditions [of e0 c cs today_str others]
    aggregate_Inr [of today_str data_list r]
    process_city_conditions [of w city con con' t]
  by blast


theorem conditions_from_first_entry_witness:
  "aggregate ''2024-05-01'' forecast_example = Inr rabat_reading \<and>
   \<not> startswith (e_dt_txt (hd forecast_example)) ''2024-05-01'' \<and>
   e_weather (hd forecast_example) = [''clear sky''] \<and>
   r_humidity rabat_reading = e_humidity (hd forecast_example) \<and>
   r_wind_speed rabat_reading = e_wind_speed (hd forecast_example) \<and>
   r_condition rabat_reading = hd (e_weather (hd forecast_example)) \<and>
   (\<exists>tn tmin tmax. aggregate ''2024-06-01'' forecast_example =
      Inr \<lparr>r_temp_now = tn, r_temp_min = tmin, r_temp_max = tmax,
           r_humidity = 60, r_wind_speed = 3, r_condition = ''clear sky''\<rparr>) \<and>
   process_city calm ''Rabat'' fresh = (rabat_done, Inr 20) \<and>
   (\<exists>e0 others c cs i ids h.
      w_forecast calm 34 (-7) = Inr (e0 # others) \<and> e_weather e0 = c # cs \<and>
      city_ids (committed rabat_done) ''Rabat'' = i # ids \<and>
      snapshot (committed rabat_done) i \<noteq> [] \<and>
      table_rows (historical_weather (committed rabat_done)) =
        table_rows (historical_weather (working fresh)) @ [h] \<and>
      h_city_id h = i \<and> h_humidity h = e_humidity e0 \<and>
      h_wind_speed h = e_wind_speed e0 \<and> h_condition_text h = c)"
proof -
  define e0 where "e0 = hd forecast_example"
  define others where "others = tl forecast_example"
  have fe: "forecast_example = e0 # others"
    by (simp add: e0_def others_def forecast_example_def)
  have e0: "e_weather e0 = ''clear sky'' # []" "e_humidity e0 = 60" "e_wind_speed e0 = 3"
    "\<not> startswith (e_dt_txt e0) ''2024-05-01''"
    by (simp_all add: e0_def forecast_example_def)
  note t1 = conditions_from_first_entry [where ?e0.0 = e0 and c = "''clear sky''" and cs = "[]"
      and today_str = "''2024-06-01''" and others = others
      and data_list = forecast_example and r = rabat_reading
      and w = calm and city = "''Rabat''" and con = fresh and con' = rabat_done and t = 20]
  note t2 = conditions_from_first_entry [where ?e0.0 = e0 and c = "''clear sky''" and cs = "[]"
      and today_str = "''2024-05-01''" and others = others
      and data_list = forecast_example and r = rabat_reading
      and w = calm and city = "''Rabat''" and con = fresh and con' = rabat_done and t = 20]
  from t1 e0 have a: "\<exists>tn tmin tmax. aggregate ''2024-06-01'' forecast_example =
      Inr \<lparr>r_temp_now = tn, r_temp_min = tmin, r_temp_max = tmax,
           r_humidity = 60, r_wind_speed = 3, r_condition = ''clear sky''\<rparr>"
    by (simp add: fe)
  from t2 aggregate_example obtain e1 o1 c1 cs1 where
    b1: "forecast_example = e1 # o1" "e_weather e1 = c1 # cs1"
      "r_humidity rabat_reading = e_humidity e1" "r_wind_speed rabat_reading = e_wind_speed e1"
      "r_condition rabat_reading = c1"
    by blast
  from b1(1) fe have "e1 = e0" by (metis list.inject)
  with b1 have b: "r_humidity rabat_reading = e_humidity e0 \<and>
     r_wind_speed rabat_reading = e_wind_speed e0 \<and>
     r_condition rabat_reading = hd (e_weather e0)"
    by simp
  have cc: "get_city_coordinates calm ''Rabat'' = Inr (34, -7)" by (rule coordinates_calm)
  from t2 process_rabat cc
  have c: "\<exists>e0 others c cs i ids h.
      w_forecast calm 34 (-7) = Inr (e0 # others) \<and> e_weather e0 = c # cs \<and>
      city_ids (committed rabat_done) ''Rabat'' = i # ids \<and>
      snapshot (committed rabat_done) i \<noteq> [] \<and>
      table_rows (historical_weather (committed rabat_done)) =
        table_rows (historical_weather (working fresh)) @ [h] \<and>
      h_city_id h = i \<and> h_humidity h = e_humidity e0 \<and>
      h_wind_speed h = e_wind_speed e0 \<and> h_condition_text h = c"
    by (simp only: prod.inject sum.inject) blast
  from a b c e0 aggregate_example process_rabat show ?thesis
    unfolding e0_def by blast
qed

section \<open>Failure isolation\<close>

lemma then_do_exn:
  assumes "\<And>s s' e. m s = (s', Inl e) \<Longrightarrow> P e"
    and "\<And>a s s' e. f a s = (s', Inl e) \<Longrightarrow> P e"
    and "then_do m f s = (s', Inl e)"
  shows "P e"
  using assms unfolding then_do_Inl_iff by blast

lemma execute_exn:
  assumes "\<And>db e. stmt db = Inl e \<Longrightarrow> P e"
    and "\<And>e. w_fault w step = Some e \<Longrightarrow> P e"
    and "execute w step stmt con = (con', Inl e)"
  shows "P e"
  using assms by (auto simp: execute_def split: option.splits sum.splits)

lemma commit_exn:
  assumes "\<And>e. w_fault w step = Some e \<Longrightarrow> P e"
    and "commit w step con = (con', Inl e)"
  shows "P e"
  using assms by (auto simp: commit_def split: option.splits)

lemma pure_exn:
  assumes "\<And>e. x = Inl e \<Longrightarrow> P e" and "pure x s = (s', Inl e)"
  shows "P e"
  using assms by (auto simp: pure_def)

lemma return_exn: "return x s = (s', Inl e) \<Longrightarrow> P e"
  by (simp add: return_def)

lemma and_then_Inl_iff:
  "and_then x f = Inl e \<longleftrightarrow> x = Inl e \<or> (\<exists>a. x = Inr a \<and> f a = Inl e)"
  by (cases x) simp_all

lemma first_exn: "first xs = Inl e \<Longrightarrow> is_Exception e"
  by (cases xs) auto

lemma py_min_exn: "py_min xs = Inl e \<Longrightarrow> is_Exception e"
  by (cases xs) auto

lemma py_max_exn: "py_max xs = Inl e \<Longrightarrow> is_Exception e"
  by (cases xs) auto

lemma temperatures_exn: "temperatures today_str data_list = Inl e \<Longrightarrow> is_Exception e"
  unfolding temperatures_def and_then_Inl_iff Let_def
  by (auto dest: first_exn py_min_exn py_max_exn split: if_splits simp: and_then_Inl_iff)

lemma aggregate_exn: "aggregate today_str data_list = Inl e \<Longrightarrow> is_Exception e"
  unfolding aggregate_def and_then_Inl_iff
  by (auto dest: first_exn temperatures_exn simp: and_then_Inl_iff)

lemma sql_exn:
  "sql_insert_ignore_city city lat lon db = Inl e \<Longrightarrow> is_Exception e"
  "sql_select_city_id city db = Inl e \<Longrightarrow> is_Exception e"
  "sql_select_date_id d db = Inl e \<Longrightarrow> is_Exception e"
  "sql_insert_date row db = Inl e \<Longrightarrow> is_Exception e"
  "sql_upsert_current i r now db = Inl e \<Longrightarrow> is_Exception e"
  "sql_insert_history i k tm r db = Inl e \<Longrightarrow> is_Exception e"
  by (auto simp: sql_insert_ignore_city_def sql_select_city_id_def sql_select_date_id_def
      sql_insert_date_def sql_upsert_current_def sql_insert_history_def no_table_def fk_fails_def
      Let_def split: option.splits if_splits)

lemma fetchone_0_exn: "fetchone_0 xs = Inl e \<Longrightarrow> is_Exception e"
  by (cases xs) auto

lemma fault_exn: "not_interrupted w \<Longrightarrow> w_fault w step = Some e \<Longrightarrow> is_Exception e"
  by (cases e) (auto simp: not_interrupted_def)

lemma coordinates_exn:
  "not_interrupted w \<Longrightarrow> get_city_coordinates w city = Inl e \<Longrightarrow> is_Exception e"
proof -
  assume n: "not_interrupted w" and g: "get_city_coordinates w city = Inl e"
  show ?thesis
  proof (cases "w_geocode w city")
    case (Inl e')
    with g have "e' = e" by (simp add: get_city_coordinates_def)
    with Inl n show ?thesis by (cases e) (auto simp: not_interrupted_def)
  next
    case (Inr data)
    with g show ?thesis by (cases data) (auto simp: get_city_coordinates_def)
  qed
qed

lemma forecast_exn:
  "not_interrupted w \<Longrightarrow> w_forecast w lat lon = Inl e \<Longrightarrow> is_Exception e"
  by (cases e) (auto simp: not_interrupted_def)

lemma get_or_create_city_exn:
  assumes "not_interrupted w" "get_or_create_city w city lat lon con = (con', Inl e)"
  shows "is_Exception e"
  using assms(2) unfolding get_or_create_city_def
  by (elim then_do_exn [rotated 2] execute_exn [rotated 2] commit_exn [rotated] pure_exn [rotated]
      sql_exn fetchone_0_exn fault_exn [OF assms(1)])

lemma get_or_create_date_exn:
  assumes "not_interrupted w" "get_or_create_date w date_obj con = (con', Inl e)"
  shows "is_Exception e"
  using assms(2) unfolding get_or_create_date_def
  apply (elim then_do_exn [rotated 2] execute_exn [rotated 2] sql_exn fault_exn [OF assms(1)])
  apply (simp split: list.splits)
   apply (elim then_do_exn [rotated 2] execute_exn [rotated 2] commit_exn [rotated]
      return_exn sql_exn fault_exn [OF assms(1)])
  apply (erule return_exn)
  done

lemma write_facts_exn:
  assumes "not_interrupted w" "write_facts w i d tm r con = (con', Inl e)"
  shows "is_Exception e"
  using assms(2) unfolding write_facts_def
  by (elim then_do_exn [rotated 2] execute_exn [rotated 2] commit_exn [rotated] return_exn
      sql_exn fault_exn [OF assms(1)])

lemma process_city_exn:
  assumes "not_interrupted w" "process_city w city con = (con', Inl e)"
  shows "is_Exception e"
  using assms(2) unfolding process_city_def
  apply (elim then_do_exn [rotated 2] pure_exn [rotated] coordinates_exn [OF assms(1)])
  apply (simp split: prod.splits)
  apply (elim then_do_exn [rotated 2] pure_exn [rotated] get_or_create_city_exn [OF assms(1)]
      get_or_create_date_exn [OF assms(1)] forecast_exn [OF assms(1)] aggregate_exn
      write_facts_exn [OF assms(1)])
  done


lemma process_cities_step:
  assumes "process_city (ws i) city con = (con1, res)" "\<forall>e. res = Inl e \<longrightarrow> is_Exception e"
  shows "process_cities ws i (city # after) results con =
         process_cities ws (Suc i) after (results @ [entry_of city res]) con1"
  using assms by (cases res) simp_all

lemma process_cities_total:
  assumes "\<forall>j. not_interrupted (ws j)"
  shows "\<exists>con' out. process_cities ws i cities results con = (con', Inr out) \<and>
     map entry_city out = map entry_city results @ cities"
proof (induction cities arbitrary: i results con)
  case Nil
  show ?case by simp
next
  case (Cons city after)
  obtain con1 res where p: "process_city (ws i) city con = (con1, res)"
    by (cases "process_city (ws i) city con")
  have ex: "\<forall>e. res = Inl e \<longrightarrow> is_Exception e"
    using assms p process_city_exn by blast
  from Cons.IH [of "Suc i" "results @ [entry_of city res]" con1]
  obtain con' out where
    "process_cities ws (Suc i) after (results @ [entry_of city res]) con1 = (con', Inr out)"
    "map entry_city out = map entry_city (results @ [entry_of city res]) @ after"
    by blast
  moreover have "entry_city (entry_of city res) = city" by (cases res) simp_all
  ultimately show ?case
    unfolding process_cities_step [where ws = ws and i = i, OF p ex] by simp
qed

lemma process_cities_append:
  assumes "process_cities ws i before results con = (con1, Inr out1)"
  shows "process_cities ws i (before @ cities) results con =
         process_cities ws (i + length before) cities out1 con1"
  using assms
proof (induction before arbitrary: i results con)
  case Nil
  then show ?case by simp
next
  case (Cons city before)
  obtain con2 res where p: "process_city (ws i) city con = (con2, res)"
    by (cases "process_city (ws i) city con")
  show ?case
  proof (cases res)
    case (Inr t)
    with Cons.prems p
    have "process_cities ws (Suc i) before (results @ [Success city t]) con2 = (con1, Inr out1)"
      by simp
    from Cons.IH [OF this] p Inr show ?thesis by simp
  next
    case (Inl e)
    with Cons.prems p have ex: "is_Exception e" by (auto split: if_splits)
    with Inl Cons.prems p
    have "process_cities ws (Suc i) before (results @ [Failure city e]) con2 = (con1, Inr out1)"
      by simp
    from Cons.IH [OF this] p Inl ex show ?thesis by simp
  qed
qed

lemma failure_isolated:
  assumes n: "\<forall>j. not_interrupted (ws j)"
  shows "\<exists>con1 out1 con2 res.
     process_cities ws i before results con = (con1, Inr out1) \<and>
     map entry_city out1 = map entry_city results @ before \<and>
     process_city (ws (i + length before)) city con1 = (con2, res) \<and>
     process_cities ws i (before @ city # after) results con =
       process_cities ws (Suc (i + length before)) after (out1 @ [entry_of city res]) con2"
proof -
  from process_cities_total [OF n, of i before results con] obtain con1 out1 where
    b: "process_cities ws i before results con = (con1, Inr out1)"
      "map entry_city out1 = map entry_city results @ before"
    by blast
  obtain con2 res where p: "process_city (ws (i + length before)) city con1 = (con2, res)"
    by (cases "process_city (ws (i + length before)) city con1")
  have ex: "\<forall>e. res = Inl e \<longrightarrow> is_Exception e"
    using n p process_city_exn by blast
  have "process_cities ws i (before @ city # after) results con =
       process_cities ws (Suc (i + length before)) after (out1 @ [entry_of city res]) con2"
    unfolding process_cities_append [OF b(1)]
      process_cities_step [where ws = ws and i = "i + length before", OF p ex] ..
  with b p show ?thesis by blast
qed

lemma collect_weather_report:
  assumes "\<forall>j. not_interrupted (worlds env j)" "connect_fault env = None"
  shows "\<exists>db' out. collect_weather env cities db = (db', ReportHeader # map ReportLine out, None) \<and>
     map entry_city out = cities"
proof -
  from process_cities_total [OF assms(1), of 0 cities "[]" "\<lparr>committed = db, working = db\<rparr>"]
  obtain con' out where
    "process_cities (worlds env) 0 cities [] \<lparr>committed = db, working = db\<rparr> = (con', Inr out)"
    "map entry_city out = cities"
    by auto
  with assms(2)
  have "collect_weather env cities db = (committed con', ReportHeader # map ReportLine out, None) \<and>
     map entry_city out = cities"
    by (simp add: collect_weather_def)
  then show ?thesis by blast
qed

text \<open>
  Claim C2. A city's failure is caught at that city's boundary. In a batch whose
  connection opens and in which the process is not interrupted, whatever the
  providers and the store raise for whatever city (geocoding, fetch, dimension write,
  fact write), \<open>collect_weather\<close> returns normally and prints a report with exactly one
  entry per input city, in the order of the input. At every position of the list: the
  cities before it have been processed and have one entry each; the city at that
  position is processed from the connection they left; its entry, a failure entry
  with the exception if its pipeline raised, is appended; and all the cities after it
  are processed next, from the connection it left.
\<close>

theorem failure_isolation:
  "((\<forall>j. not_interrupted (worlds env j)) \<longrightarrow> connect_fault env = None \<longrightarrow>
      (\<exists>db' out. collect_weather env cities db = (db', ReportHeader # map ReportLine out, None) \<and>
         map entry_city out = cities)) \<and>
   ((\<forall>j. not_interrupted (ws j)) \<longrightarrow>
      (\<exists>con1 out1 con2 res.
         process_cities ws i before results con = (con1, Inr out1) \<and>
         map entry_city out1 = map entry_city results @ before \<and>
         process_city (ws (i + length before)) city con1 = (con2, res) \<and>
         process_cities ws i (before @ city # after) results con =
           process_cities ws (Suc (i + length before)) after (out1 @ [entry_of city res]) con2))"
  using collect_weather_report [of env cities db]
    failure_isolated [of ws i before results con city after]
  by blast


lemma not_interrupted_calm: "not_interrupted calm"
  by (simp add: not_interrupted_def calm_def)

lemma not_interrupted_nowhere: "not_interrupted nowhere"
  by (simp add: not_interrupted_def nowhere_def calm_def)

lemma not_interrupted_mixed: "\<forall>j. not_interrupted (worlds mixed_run j)"
  by (simp add: mixed_run_def not_interrupted_calm not_interrupted_nowhere)

lemma process_atlantis:
  "process_city nowhere ''Atlantis'' fresh = (fresh, Inl (ValueError ''No coordinates for Atlantis''))"
  by (simp add: process_city_def then_do_def pure_def get_city_coordinates_def nowhere_def)

lemma collect_mixed:
  "collect_weather mixed_run [''Atlantis'', ''Rabat''] empty_store =
     (rabat_collected,
      [ReportHeader, ReportLine (Failure ''Atlantis'' (ValueError ''No coordinates for Atlantis'')),
       ReportLine (Success ''Rabat'' 20)], None)"
proof -
  have "worlds mixed_run 0 = nowhere" "worlds mixed_run (Suc 0) = calm"
    "connect_fault mixed_run = None"
    by (simp_all add: mixed_run_def)
  moreover have "\<lparr>committed = empty_store, working = empty_store\<rparr> = fresh" by (simp add: fresh_def)
  ultimately show ?thesis
    by (simp add: collect_weather_def process_atlantis process_rabat rabat_done_def)
qed

theorem failure_isolation_witness:
  "(\<forall>j. not_interrupted (worlds mixed_run j)) \<and> connect_fault mixed_run = None \<and>
   collect_weather mixed_run [''Atlantis'', ''Rabat''] empty_store =
     (rabat_collected,
      [ReportHeader, ReportLine (Failure ''Atlantis'' (ValueError ''No coordinates for Atlantis'')),
       ReportLine (Success ''Rabat'' 20)], None) \<and>
   (\<exists>db' out. collect_weather mixed_run [''Atlantis'', ''Rabat''] empty_store =
      (db', ReportHeader # map ReportLine out, None) \<and>
      map entry_city out = [''Atlantis'', ''Rabat'']) \<and>
   process_city (worlds mixed_run 0) ''Atlantis'' fresh =
     (fresh, Inl (ValueError ''No coordinates for Atlantis'')) \<and>
   process_cities (worlds mixed_run) 0 ([] @ ''Atlantis'' # [''Rabat'']) [] fresh =
     process_cities (worlds mixed_run) (Suc 0) [''Rabat'']
       [Failure ''Atlantis'' (ValueError ''No coordinates for Atlantis'')] fresh"
proof -
  note t = failure_isolation [where env = mixed_run and cities = "[''Atlantis'', ''Rabat'']"
      and db = empty_store and ws = "worlds mixed_run" and i = 0 and before = "[]"
      and results = "[]" and con = fresh and city = "''Atlantis''" and after = "[''Rabat'']"]
  have c: "connect_fault mixed_run = None" by (simp add: mixed_run_def)
  have w0: "worlds mixed_run 0 = nowhere" by (simp add: mixed_run_def)
  from t not_interrupted_mixed c
  have a: "\<exists>db' out. collect_weather mixed_run [''Atlantis'', ''Rabat''] empty_store =
      (db', ReportHeader # map ReportLine out, None) \<and>
      map entry_city out = [''Atlantis'', ''Rabat'']"
    by blast
  from t not_interrupted_mixed obtain con1 out1 con2 res where
    o: "process_cities (worlds mixed_run) 0 [] [] fresh = (con1, Inr out1)"
    "process_city (worlds mixed_run (0 + length ([]::string list))) ''Atlantis'' con1 = (con2, res)"
    "process_cities (worlds mixed_run) 0 ([] @ ''Atlantis'' # [''Rabat'']) [] fresh =
       process_cities (worlds mixed_run) (Suc (0 + length ([]::string list))) [''Rabat'']
         (out1 @ [entry_of ''Atlantis'' res]) con2"
    by blast
  from o(1) have "con1 = fresh" "out1 = []" by simp_all
  with o(2) have "con2 = fresh" "res = Inl (ValueError ''No coordinates for Atlantis'')"
    by (simp_all add: w0 process_atlantis)
  with o(3) \<open>out1 = []\<close>
  have b: "process_cities (worlds mixed_run) 0 ([] @ ''Atlantis'' # [''Rabat'']) [] fresh =
     process_cities (worlds mixed_run) (Suc 0) [''Rabat'']
       [Failure ''Atlantis'' (ValueError ''No coordinates for Atlantis'')] fresh"
    by (simp del: process_cities.simps)
  from not_interrupted_mixed c collect_mixed a b process_atlantis w0 show ?thesis
    by (simp del: process_cities.simps)
qed

section \<open>Schema provisioning\<close>

lemma create_if_not_exists_idem [simp]:
  "create_if_not_exists (create_if_not_exists t) = create_if_not_exists t"
  by (simp add: create_if_not_exists_def split: option.splits)

lemma create_if_not_exists_Some [simp]: "create_if_not_exists (Some rows) = Some rows"
  by (simp add: create_if_not_exists_def)

lemma create_if_not_exists_not_None [simp]: "create_if_not_exists t \<noteq> None"
  by (simp add: create_if_not_exists_def split: option.splits)

lemma create_if_not_exists_ex [simp]: "\<exists>rows. create_if_not_exists t = Some rows"
  by (simp add: create_if_not_exists_def split: option.splits)

lemma create_tables_provisioned:
  assumes "provisioned db"
  shows "fst (create_tables fault db) = db"
  using assms
  by (auto simp: provisioned_def create_tables_def then_do_def ddl_def split: option.splits)

lemma create_tables_Inr:
  assumes "create_tables fault db = (db', Inr u)"
  shows "provisioned db'"
  using assms
  by (auto simp: provisioned_def create_tables_def then_do_def ddl_def split: option.splits)

lemma create_tables_no_fault:
  assumes "provisioned db"
  shows "create_tables (\<lambda>step. None) db = (db, Inr ())"
  using assms
  by (auto simp: provisioned_def create_tables_def then_do_def ddl_def)

lemma create_tables_idem:
  "create_tables fault (fst (create_tables fault db)) = create_tables fault db"
  by (auto simp: create_tables_def then_do_def ddl_def split: option.splits)

lemma create_tables_same_rows: "same_rows db (fst (create_tables fault db))"
  by (auto simp: same_rows_def create_tables_def then_do_def ddl_def keeps_create_if_not_exists
      split: option.splits)

lemma create_tables_existing:
  "dim_city db \<noteq> None \<Longrightarrow> dim_city (fst (create_tables fault db)) = dim_city db"
  "dim_date db \<noteq> None \<Longrightarrow> dim_date (fst (create_tables fault db)) = dim_date db"
  "current_weather db \<noteq> None \<Longrightarrow> current_weather (fst (create_tables fault db)) = current_weather db"
  "historical_weather db \<noteq> None \<Longrightarrow>
     historical_weather (fst (create_tables fault db)) = historical_weather db"
  by (auto simp: create_tables_def then_do_def ddl_def split: option.splits)


lemma fst_create_schema: "fst (create_schema fault db) = fst (create_tables fault db)"
  by (simp add: create_schema_def split: prod.splits sum.splits)

lemma create_schema_idem:
  "create_schema fault (fst (create_schema fault db)) = create_schema fault db"
  unfolding fst_create_schema
  by (simp add: create_schema_def create_tables_idem)

lemma create_schema_created:
  assumes "create_schema fault db = (db1, [SchemaCreated], None)"
  shows "provisioned db1"
    and "fst (create_schema fault2 db1) = db1"
    and "create_schema (\<lambda>step. None) db1 = (db1, [SchemaCreated], None)"
proof -
  from assms obtain u where "create_tables fault db = (db1, Inr u)"
    by (auto simp: create_schema_def split: prod.splits sum.splits if_splits)
  then show p: "provisioned db1" by (rule create_tables_Inr)
  then show "fst (create_schema fault2 db1) = db1"
    unfolding fst_create_schema by (rule create_tables_provisioned)
  from p show "create_schema (\<lambda>step. None) db1 = (db1, [SchemaCreated], None)"
    by (simp add: create_schema_def create_tables_no_fault)
qed

text \<open>
  Claim C5. Schema provisioning is idempotent. Calling \<open>create_schema\<close> a second
  time, on the store the first call left, gives the same as the first call and
  leaves that store as it is. The rows of every table are untouched by a call, and
  a table that exists is left exactly as it is. After a call that printed the success
  line the four tables exist, and a second call changes nothing whatever the store
  then answers, and prints the success line again when the store accepts its
  statements.
\<close>

theorem schema_provisioning_idempotent:
  "create_schema fault (fst (create_schema fault db)) = create_schema fault db \<and>
   same_rows db (fst (create_schema fault db)) \<and>
   (dim_city db \<noteq> None \<longrightarrow> dim_city (fst (create_schema fault db)) = dim_city db) \<and>
   (dim_date db \<noteq> None \<longrightarrow> dim_date (fst (create_schema fault db)) = dim_date db) \<and>
   (current_weather db \<noteq> None \<longrightarrow>
      current_weather (fst (create_schema fault db)) = current_weather db) \<and>
   (historical_weather db \<noteq> None \<longrightarrow>
      historical_weather (fst (create_schema fault db)) = historical_weather db) \<and>
   (create_schema fault db = (db1, [SchemaCreated], None) \<longrightarrow>
      provisioned db1 \<and> fst (create_schema fault2 db1) = db1 \<and>
      create_schema (\<lambda>step. None) db1 = (db1, [SchemaCreated], None))"
  using create_schema_idem [where fault = fault and db = db]
    create_tables_same_rows [where fault = fault and db = db]
    create_tables_existing [where fault = fault and db = db]
    create_schema_created(1,3) [where fault = fault and db = db and ?db1.0 = db1]
    create_schema_created(2) [where fault = fault and db = db and ?db1.0 = db1 and ?fault2.0 = fault2]
  unfolding fst_create_schema by blast

lemma create_schema_no_store:
  "create_schema (\<lambda>step. None) no_store = (empty_store, [SchemaCreated], None)"
  by (simp add: create_schema_def create_tables_def then_do_def ddl_def no_store_def
      empty_store_def create_if_not_exists_def)

lemma create_schema_denied:
  "create_schema denied no_store =
     (no_store\<lparr>dim_city := Some [], dim_date := Some []\<rparr>,
      [SchemaError (Error ''CREATE command denied'')], None)"
  by (simp add: create_schema_def create_tables_def then_do_def ddl_def no_store_def
      denied_def create_if_not_exists_def)

theorem schema_provisioning_idempotent_witness:
  "create_schema (\<lambda>step. None) no_store = (empty_store, [SchemaCreated], None) \<and>
   provisioned empty_store \<and>
   fst (create_schema denied empty_store) = empty_store \<and>
   create_schema (\<lambda>step. None) empty_store = (empty_store, [SchemaCreated], None) \<and>
   dim_city rabat_collected \<noteq> None \<and> dim_date rabat_collected \<noteq> None \<and>
   current_weather rabat_collected \<noteq> None \<and> historical_weather rabat_collected \<noteq> None \<and>
   fst (create_schema denied rabat_collected) = rabat_collected \<and>
   create_schema denied (fst (create_schema denied no_store)) = create_schema denied no_store"
proof -
  note a = schema_provisioning_idempotent [where fault = "\<lambda>step. None" and db = no_store
      and ?db1.0 = empty_store and ?fault2.0 = denied]
  note b = schema_provisioning_idempotent [where fault = denied and db = rabat_collected]
  note c = schema_provisioning_idempotent [where fault = denied and db = no_store]
  have e: "dim_city rabat_collected \<noteq> None" "dim_date rabat_collected \<noteq> None"
    "current_weather rabat_collected \<noteq> None" "historical_weather rabat_collected \<noteq> None"
    by (simp_all add: rabat_collected_def)
  from a create_schema_no_store
  have 1: "provisioned empty_store" "fst (create_schema denied empty_store) = empty_store"
    "create_schema (\<lambda>step. None) empty_store = (empty_store, [SchemaCreated], None)"
    by blast+
  from b e have "dim_city (fst (create_schema denied rabat_collected)) = dim_city rabat_collected"
    "dim_date (fst (create_schema denied rabat_collected)) = dim_date rabat_collected"
    "current_weather (fst (create_schema denied rabat_collected)) = current_weather rabat_collected"
    "historical_weather (fst (create_schema denied rabat_collected)) = historical_weather rabat_collected"
    by blast+
  then have 2: "fst (create_schema denied rabat_collected) = rabat_collected"
    by (intro database.equality) simp_all
  from c have 3: "create_schema denied (fst (create_schema denied no_store)) = create_schema denied no_store"
    by blast
  from create_schema_no_store e 1 2 3 show ?thesis by blast
qed

section \<open>The entry point after a failed provisioning\<close>

lemma create_schema_Inl:
  assumes "create_tables fault db = (db1, Inl err)"
  shows "is_mysql_error err \<Longrightarrow> create_schema fault db = (db1, [SchemaError err], None)"
    and "\<not> is_mysql_error err \<Longrightarrow> create_schema fault db = (db1, [], Some err)"
  using assms by (simp_all add: create_schema_def)

lemma main_after_schema_error:
  assumes "create_tables (schema_fault env) db = (db1, Inl err)" "is_mysql_error err"
  shows "main env cities db =
     (case collect_weather env cities db1 of
        (db2, out2, Some e) \<Rightarrow> (db2, SchemaError err # out2, Some e)
      | (db2, out2, None) \<Rightarrow> (db2, SchemaError err # out2 @ [ETLComplete], None))"
  using assms by (simp add: main_def create_schema_Inl split: prod.splits option.splits)

lemma main_after_schema_crash:
  assumes "create_tables (schema_fault env) db = (db1, Inl err)" "\<not> is_mysql_error err"
  shows "main env cities db = (db1, [], Some err)"
  using assms by (simp add: main_def create_schema_Inl)

lemma main_after_schema_error_report:
  assumes "create_tables (schema_fault env) db = (db1, Inl err)" "is_mysql_error err"
    and "connect_fault env = None" "\<forall>j. not_interrupted (worlds env j)"
  shows "\<exists>db2 out. main env cities db =
       (db2, SchemaError err # ReportHeader # map ReportLine out @ [ETLComplete], None) \<and>
     map entry_city out = cities"
proof -
  from collect_weather_report [OF assms(4,3), of cities db1] obtain db2 out where
    "collect_weather env cities db1 = (db2, ReportHeader # map ReportLine out, None)"
    "map entry_city out = cities"
    by blast
  then have "main env cities db =
       (db2, SchemaError err # ReportHeader # map ReportLine out @ [ETLComplete], None) \<and>
     map entry_city out = cities"
    by (simp add: main_after_schema_error [OF assms(1,2)])
  then show ?thesis by blast
qed

text \<open>
  Claim C1, as the code has it. A store error during schema provisioning is not fatal:
  \<open>create_schema\<close> catches it, prints it and returns, and the entry point goes on.
  \<open>collect_weather\<close> then runs on the store as provisioning left it and the run
  ends with the completion line; when its connection opens and the process is not
  interrupted, every city is processed and reported. The run stops before any
  collection only when \<open>create_schema\<close> is left by an exception that is not a store
  error.
\<close>

theorem schema_failure_reported:
  "(create_tables (schema_fault env) db = (db1, Inl err) \<longrightarrow> is_mysql_error err \<longrightarrow>
      create_schema (schema_fault env) db = (db1, [SchemaError err], None) \<and>
      main env cities db =
        (case collect_weather env cities db1 of
           (db2, out2, Some e) \<Rightarrow> (db2, SchemaError err # out2, Some e)
         | (db2, out2, None) \<Rightarrow> (db2, SchemaError err # out2 @ [ETLComplete], None))) \<and>
   (create_tables (schema_fault env) db = (db1, Inl err) \<longrightarrow> is_mysql_error err \<longrightarrow>
    connect_fault env = None \<longrightarrow> (\<forall>j. not_interrupted (worlds env j)) \<longrightarrow>
      (\<exists>db2 out. main env cities db =
         (db2, SchemaError err # ReportHeader # map ReportLine out @ [ETLComplete], None) \<and>
         map entry_city out = cities)) \<and>
   (create_tables (schema_fault env) db = (db1, Inl err) \<longrightarrow> \<not> is_mysql_error err \<longrightarrow>
      create_schema (schema_fault env) db = (db1, [], Some err) \<and>
      main env cities db = (db1, [], Some err))"
  using create_schema_Inl [where fault = "schema_fault env" and db = db and ?db1.0 = db1 and err = err]
    main_after_schema_error [where env = env and db = db and ?db1.0 = db1 and err = err and cities = cities]
    main_after_schema_error_report [where env = env and db = db and ?db1.0 = db1 and err = err and cities = cities]
    main_after_schema_crash [where env = env and db = db and ?db1.0 = db1 and err = err and cities = cities]
  by blast

lemma create_tables_denied:
  "create_tables denied empty_store = (empty_store, Inl (Error ''CREATE command denied''))"
  by (simp add: create_tables_def then_do_def ddl_def empty_store_def denied_def
      create_if_not_exists_def)

lemma collect_denied:
  "collect_weather denied_run [''Rabat''] empty_store =
     (rabat_collected, [ReportHeader, ReportLine (Success ''Rabat'' 20)], None)"
proof -
  have "worlds denied_run 0 = calm" "connect_fault denied_run = None" by (simp_all add: denied_run_def)
  moreover have "\<lparr>committed = empty_store, working = empty_store\<rparr> = fresh" by (simp add: fresh_def)
  ultimately show ?thesis
    by (simp add: collect_weather_def process_rabat rabat_done_def)
qed

text \<open>
  Claim C1, as the specification states it, fails: in the run below the store refuses
  a \<open>CREATE TABLE\<close> (the tables exist already), \<open>create_schema\<close> prints the store
  error, and the collection for Rabat still runs, succeeds and writes the store.
\<close>

theorem schema_failure_fatal_counterexample:
  "create_schema (schema_fault denied_run) empty_store =
     (empty_store, [SchemaError (Error ''CREATE command denied'')], None) \<and>
   main denied_run [''Rabat''] empty_store =
     (rabat_collected,
      [SchemaError (Error ''CREATE command denied''), ReportHeader,
       ReportLine (Success ''Rabat'' 20), ETLComplete], None) \<and>
   rabat_collected \<noteq> empty_store"
proof -
  have f: "schema_fault denied_run = denied" by (simp add: denied_run_def)
  have a: "create_schema denied empty_store =
     (empty_store, [SchemaError (Error ''CREATE command denied'')], None)"
    by (simp add: create_schema_def create_tables_denied)
  have b: "main denied_run [''Rabat''] empty_store =
     (rabat_collected,
      [SchemaError (Error ''CREATE command denied''), ReportHeader,
       ReportLine (Success ''Rabat'' 20), ETLComplete], None)"
    by (simp add: main_def f a collect_denied)
  have c: "rabat_collected \<noteq> empty_store"
    by (simp add: rabat_collected_def empty_store_def)
  from a b c f show ?thesis by simp
qed


theorem schema_failure_reported_witness:
  "create_tables (schema_fault denied_run) empty_store =
     (empty_store, Inl (Error ''CREATE command denied'')) \<and>
   is_mysql_error (Error ''CREATE command denied'') \<and>
   connect_fault denied_run = None \<and> (\<forall>j. not_interrupted (worlds denied_run j)) \<and>
   create_schema (schema_fault denied_run) empty_store =
     (empty_store, [SchemaError (Error ''CREATE command denied'')], None) \<and>
   (\<exists>db2 out. main denied_run [''Rabat''] empty_store =
      (db2, SchemaError (Error ''CREATE command denied'') # ReportHeader # map ReportLine out @
         [ETLComplete], None) \<and>
      map entry_city out = [''Rabat'']) \<and>
   create_tables (schema_fault interrupted_run) empty_store = (empty_store, Inl KeyboardInterrupt) \<and>
   \<not> is_mysql_error KeyboardInterrupt \<and>
   main interrupted_run [''Rabat''] empty_store = (empty_store, [], Some KeyboardInterrupt)"
proof -
  note a = schema_failure_reported [where env = denied_run and db = empty_store
      and ?db1.0 = empty_store and err = "Error ''CREATE command denied''"
      and cities = "[''Rabat'']"]
  note b = schema_failure_reported [where env = interrupted_run and db = empty_store
      and ?db1.0 = empty_store and err = KeyboardInterrupt and cities = "[''Rabat'']"]
  have h1: "create_tables (schema_fault denied_run) empty_store =
     (empty_store, Inl (Error ''CREATE command denied''))"
    by (simp add: denied_run_def create_tables_denied)
  have h2: "connect_fault denied_run = None" "\<forall>j. not_interrupted (worlds denied_run j)"
    by (simp_all add: denied_run_def not_interrupted_calm)
  have h3: "create_tables (schema_fault interrupted_run) empty_store = (empty_store, Inl KeyboardInterrupt)"
    by (simp add: interrupted_run_def create_tables_def then_do_def ddl_def)
  have h0: "is_mysql_error (Error ''CREATE command denied'')" "\<not> is_mysql_error KeyboardInterrupt"
    by simp_all
  from a h0 h1 h2 have c1: "create_schema (schema_fault denied_run) empty_store =
     (empty_store, [SchemaError (Error ''CREATE command denied'')], None)"
    and c2: "\<exists>db2 out. main denied_run [''Rabat''] empty_store =
      (db2, SchemaError (Error ''CREATE command denied'') # ReportHeader # map ReportLine out @
         [ETLComplete], None) \<and>
      map entry_city out = [''Rabat'']"
    by blast+
  from b h0 h3 have c3: "main interrupted_run [''Rabat''] empty_store = (empty_store, [], Some KeyboardInterrupt)"
    by blast
  from h0 h1 h2 h3 c1 c2 c3 show ?thesis by blast
qed

section \<open>Commits\<close>

lemma get_or_create_city_committed:
  assumes "get_or_create_city w city lat lon con = (con1, Inr i)"
  shows "committed con1 = working con1" and "\<exists>ids. city_ids (committed con1) city = i # ids"
  using assms by (auto simp: get_or_create_city_Inr_iff)

lemma get_or_create_date_committed:
  assumes "get_or_create_date w date_obj con = (con1, Inr k)" "committed con = working con"
  shows "committed con1 = working con1" and "date_exists (committed con1) k"
proof -
  from assms(1) obtain cona ids where
    s: "execute w SelectDate (sql_select_date_id (dt_date date_obj)) con = (cona, Inr ids)"
    unfolding get_or_create_date_def then_do_Inr_iff by blast
  then have cona: "cona = con" and ex: "dim_date (working con) \<noteq> None"
    and ids: "ids = map d_date_id (filter (\<lambda>r. d_full_date r = dt_date date_obj)
                (table_rows (dim_date (working con))))"
    by (auto simp: execute_Inr_iff sql_select_date_id_Inr_iff)
  have both: "committed con1 = working con1 \<and> date_exists (committed con1) k"
  proof (cases ids)
    case (Cons row more_ids)
    with assms(1) s cona have "con1 = con" "k = row"
      by (simp_all add: get_or_create_date_def then_do_def return_def)
    moreover from Cons ids have "row \<in> set (map d_date_id (table_rows (dim_date (working con))))"
      by (metis (no_types, lifting) filter_is_subset list.set_intros(1) list.set_map image_mono subsetD)
    ultimately show ?thesis using assms(2) ex
      by (auto simp: date_exists_def table_rows_def)
  next
    case Nil
    with assms(1) s cona obtain conb conc where
      i: "execute w InsertDate (sql_insert_date
            \<lparr>d_date_id = 0, d_full_date = dt_date date_obj,
             d_year = dt_year date_obj, d_month = dt_month date_obj, d_day = dt_day date_obj,
             d_quarter = (dt_month date_obj - 1) div 3 + 1,
             d_day_name = dt_day_name date_obj, d_week_of_year = dt_week date_obj\<rparr>) con = (conb, Inr k)"
      and c: "commit w CommitDate conb = (con1, Inr ())"
      by (auto simp: get_or_create_date_def then_do_Inr_iff return_iff)
    from i obtain db where db: "conb = con\<lparr>working := db\<rparr>" "date_exists db k"
      by (auto simp: execute_Inr_iff sql_insert_date_Inr_iff date_exists_def)
    with c show ?thesis by (auto simp: commit_Inr_iff)
  qed
  from both show "committed con1 = working con1" by (rule conjunct1)
  from both show "date_exists (committed con1) k" by (rule conjunct2)
qed






























section \<open>A failure after the upsert\<close>

lemma next_commit:
  assumes "dim_city (working con3) \<noteq> None"
    and "w_fault w' InsertCity = None" "w_fault w' CommitCity = None"
    and "get_or_create_city w' city' lat' lon' con3 = (con5, res)"
  shows "current_weather (committed con5) = current_weather (working con3)"
    and "historical_weather (committed con5) = historical_weather (working con3)"
  using assms
  unfolding get_or_create_city_def then_do_def execute_def commit_def pure_def
    sql_insert_ignore_city_def sql_select_city_id_def
  by (auto split: option.splits sum.splits prod.splits if_splits)

lemma history_insert_raises:
  assumes g: "get_city_coordinates w city = Inr (lat, lon)"
    and c: "get_or_create_city w city lat lon con = (con1, Inr i)"
    and d: "get_or_create_date w (w_now w) con1 = (con2, Inr k)"
    and f: "w_forecast w lat lon = Inr data_list"
    and a: "aggregate (dt_date (w_now w)) data_list = Inr r"
    and u: "execute w UpsertCurrent (sql_upsert_current i r (w_db_now w)) con2 = (con3, Inr ())"
    and h: "execute w InsertHistory (sql_insert_history i k (dt_time (w_now w)) r) con3 = (con4, Inl e)"
  shows "process_city w city con = (con3, Inl e)"
    and "\<exists>cw. current_weather (committed con3) = Some cw \<and>
           current_weather (working con3) = Some (upsert_rows (snapshot_row i r (w_db_now w)) cw)"
    and "snapshot (working con3) i \<noteq> []"
    and "historical_weather (working con3) = historical_weather (committed con3)"
    and "dim_city (working con3) \<noteq> None"
proof -
  from h have "con4 = con3" by (rule execute_Inl)
  with h have "write_facts w i k (dt_time (w_now w)) r con2 = (con3, Inl e)"
    by (simp add: write_facts_def then_do_def u)
  then show "process_city w city con = (con3, Inl e)"
    by (simp add: process_city_def then_do_def pure_def g c d f a)
  from get_or_create_city_committed(1) [OF c] have c1: "committed con1 = working con1" .
  from get_or_create_date_committed(1) [OF d c1] have c2: "committed con2 = working con2" .
  from c have "dim_city (working con1) \<noteq> None" by (auto simp: get_or_create_city_Inr_iff)
  with get_or_create_date_frame(3) [OF d] have dc: "dim_city (working con2) \<noteq> None" by simp
  from u obtain cw where cw: "current_weather (working con2) = Some cw"
    and con3: "con3 = con2\<lparr>working := (working con2)\<lparr>current_weather :=
        Some (upsert_rows (snapshot_row i r (w_db_now w)) cw)\<rparr>\<rparr>"
    by (auto simp: execute_Inr_iff sql_upsert_current_Inr_iff)
  from cw con3 c2
  show "\<exists>cw. current_weather (committed con3) = Some cw \<and>
           current_weather (working con3) = Some (upsert_rows (snapshot_row i r (w_db_now w)) cw)"
    by simp
  have "cw_city_id (snapshot_row i r (w_db_now w)) = i" by (simp add: snapshot_row_def)
  with upsert_rows_mem(1) [of "snapshot_row i r (w_db_now w)" cw] con3
  show "snapshot (working con3) i \<noteq> []"
    by (auto simp: snapshot_def table_rows_def filter_empty_conv)
  from con3 c2 show "historical_weather (working con3) = historical_weather (committed con3)"
    by simp
  from con3 dc show "dim_city (working con3) \<noteq> None" by simp
qed

text \<open>
  Claim C10. A failure of a city does not roll back what that city has pending on the
  shared connection. When the pipeline of a city has executed the snapshot upsert and
  the historical insert then raises, the pipeline ends with that exception and leaves
  the connection as it was right after the upsert: the upserted snapshot row is in the
  working copy and not in the committed store, and there is no new history row. The
  loop records the failure and goes on with that connection. The next commit, the one
  that the city resolution of a later city issues after its insert, makes the pending
  snapshot durable: the committed snapshot table is then the one the failed city
  left pending, and the committed history is still without a row for that run.
\<close>

theorem pending_snapshot_committed_later:
  "(get_city_coordinates w city = Inr (lat, lon) \<longrightarrow>
    get_or_create_city w city lat lon con = (con1, Inr i) \<longrightarrow>
    get_or_create_date w (w_now w) con1 = (con2, Inr k) \<longrightarrow>
    w_forecast w lat lon = Inr data_list \<longrightarrow>
    aggregate (dt_date (w_now w)) data_list = Inr r \<longrightarrow>
    execute w UpsertCurrent (sql_upsert_current i r (w_db_now w)) con2 = (con3, Inr ()) \<longrightarrow>
    execute w InsertHistory (sql_insert_history i k (dt_time (w_now w)) r) con3 = (con4, Inl e) \<longrightarrow>
      process_city w city con = (con3, Inl e) \<and>
      (\<exists>cw. current_weather (committed con3) = Some cw \<and>
         current_weather (working con3) = Some (upsert_rows (snapshot_row i r (w_db_now w)) cw)) \<and>
      snapshot (working con3) i \<noteq> [] \<and>
      historical_weather (working con3) = historical_weather (committed con3) \<and>
      dim_city (working con3) \<noteq> None) \<and>
   (process_city (ws j) city con = (con3, Inl e) \<longrightarrow> is_Exception e \<longrightarrow>
      process_cities ws j (city # later) results con =
        process_cities ws (Suc j) later (results @ [Failure city e]) con3) \<and>
   (dim_city (working con3) \<noteq> None \<longrightarrow>
    w_fault w' InsertCity = None \<longrightarrow> w_fault w' CommitCity = None \<longrightarrow>
    get_or_create_city w' city' lat' lon' con3 = (con5, res) \<longrightarrow>
      current_weather (committed con5) = current_weather (working con3) \<and>
      historical_weather (committed con5) = historical_weather (working con3))"
proof -
  have A: "get_city_coordinates w city = Inr (lat, lon) \<longrightarrow>
    get_or_create_city w city lat lon con = (con1, Inr i) \<longrightarrow>
    get_or_create_date w (w_now w) con1 = (con2, Inr k) \<longrightarrow>
    w_forecast w lat lon = Inr data_list \<longrightarrow>
    aggregate (dt_date (w_now w)) data_list = Inr r \<longrightarrow>
    execute w UpsertCurrent (sql_upsert_current i r (w_db_now w)) con2 = (con3, Inr ()) \<longrightarrow>
    execute w InsertHistory (sql_insert_history i k (dt_time (w_now w)) r) con3 = (con4, Inl e) \<longrightarrow>
      process_city w city con = (con3, Inl e) \<and>
      (\<exists>cw. current_weather (committed con3) = Some cw \<and>
         current_weather (working con3) = Some (upsert_rows (snapshot_row i r (w_db_now w)) cw)) \<and>
      snapshot (working con3) i \<noteq> [] \<and>
      historical_weather (working con3) = historical_weather (committed con3) \<and>
      dim_city (working con3) \<noteq> None"
  proof (intro impI)
    assume g: "get_city_coordinates w city = Inr (lat, lon)"
      and c: "get_or_create_city w city lat lon con = (con1, Inr i)"
      and d: "get_or_create_date w (w_now w) con1 = (con2, Inr k)"
      and f: "w_forecast w lat lon = Inr data_list"
      and a: "aggregate (dt_date (w_now w)) data_list = Inr r"
      and u: "execute w UpsertCurrent (sql_upsert_current i r (w_db_now w)) con2 = (con3, Inr ())"
      and h: "execute w InsertHistory (sql_insert_history i k (dt_time (w_now w)) r) con3 = (con4, Inl e)"
    note l = history_insert_raises [OF g c d f a u h]
    show "process_city w city con = (con3, Inl e) \<and>
      (\<exists>cw. current_weather (committed con3) = Some cw \<and>
         current_weather (working con3) = Some (upsert_rows (snapshot_row i r (w_db_now w)) cw)) \<and>
      snapshot (working con3) i \<noteq> [] \<and>
      historical_weather (working con3) = historical_weather (committed con3) \<and>
      dim_city (working con3) \<noteq> None"
      by (intro conjI) (rule l)+
  qed
  have B: "process_city (ws j) city con = (con3, Inl e) \<longrightarrow> is_Exception e \<longrightarrow>
      process_cities ws j (city # later) results con =
        process_cities ws (Suc j) later (results @ [Failure city e]) con3"
    by simp
  have C: "dim_city (working con3) \<noteq> None \<longrightarrow>
    w_fault w' InsertCity = None \<longrightarrow> w_fault w' CommitCity = None \<longrightarrow>
    get_or_create_city w' city' lat' lon' con3 = (con5, res) \<longrightarrow>
      current_weather (committed con5) = current_weather (working con3) \<and>
      historical_weather (committed con5) = historical_weather (working con3)"
  proof (intro impI)
    assume n: "dim_city (working con3) \<noteq> None" "w_fault w' InsertCity = None"
      "w_fault w' CommitCity = None" "get_or_create_city w' city' lat' lon' con3 = (con5, res)"
    note l = next_commit [OF n]
    show "current_weather (committed con5) = current_weather (working con3) \<and>
      historical_weather (committed con5) = historical_weather (working con3)"
      by (intro conjI) (rule l)+
  qed
  show ?thesis by (rule conjI [OF A conjI [OF B C]])
qed

lemma collect_stuck:
  "collect_weather stuck_run [''Rabat'', ''Fes''] empty_store =
     (lopsided,
      [ReportHeader, ReportLine (Failure ''Rabat'' (Error ''Lock wait timeout exceeded'')),
       ReportLine (Success ''Fes'' 20)], None)"
proof -
  have w: "worlds stuck_run 0 = stuck" "worlds stuck_run (Suc 0) = calm"
    "connect_fault stuck_run = None"
    by (simp_all add: stuck_run_def)
  have f: "\<lparr>committed = empty_store, working = empty_store\<rparr> = fresh" by (simp add: fresh_def)
  have p: "process_city stuck ''Rabat'' fresh = (rabat_pending, Inl (Error ''Lock wait timeout exceeded''))"
    using history_insert_raises(1) [OF stuck_fields(4) resolve_rabat_stuck _ _ _ upsert_rabat_stuck
        history_rabat_stuck, of forecast_example]
    by (simp add: stuck_fields may_first_fields resolve_date_stuck aggregate_example)
  show ?thesis
    by (simp add: collect_weather_def w f p process_fes_pending)
qed

theorem pending_snapshot_committed_later_witness:
  "get_city_coordinates stuck ''Rabat'' = Inr (34, -7) \<and>
   get_or_create_city stuck ''Rabat'' 34 (-7) fresh = (rabat_known, Inr 1) \<and>
   get_or_create_date stuck (w_now stuck) rabat_known =
     (\<lparr>committed = with_date, working = with_date\<rparr>, Inr 1) \<and>
   w_forecast stuck 34 (-7) = Inr forecast_example \<and>
   aggregate (dt_date (w_now stuck)) forecast_example = Inr rabat_reading \<and>
   execute stuck UpsertCurrent (sql_upsert_current 1 rabat_reading (w_db_now stuck))
     \<lparr>committed = with_date, working = with_date\<rparr> = (rabat_pending, Inr ()) \<and>
   execute stuck InsertHistory (sql_insert_history 1 1 (dt_time (w_now stuck)) rabat_reading)
     rabat_pending = (rabat_pending, Inl (Error ''Lock wait timeout exceeded'')) \<and>
   process_city stuck ''Rabat'' fresh = (rabat_pending, Inl (Error ''Lock wait timeout exceeded'')) \<and>
   snapshot (working rabat_pending) 1 \<noteq> [] \<and> snapshot (committed rabat_pending) 1 = [] \<and>
   historical_weather (working rabat_pending) = historical_weather (committed rabat_pending) \<and>
   is_Exception (Error ''Lock wait timeout exceeded'') \<and>
   process_cities (worlds stuck_run) 0 (''Rabat'' # [''Fes'']) [] fresh =
     process_cities (worlds stuck_run) (Suc 0) [''Fes'']
       ([] @ [Failure ''Rabat'' (Error ''Lock wait timeout exceeded'')]) rabat_pending \<and>
   dim_city (working rabat_pending) \<noteq> None \<and>
   w_fault calm InsertCity = None \<and> w_fault calm CommitCity = None \<and>
   get_or_create_city calm ''Fes'' 34 (-7) rabat_pending =
     (\<lparr>committed = snapshot_durable, working = snapshot_durable\<rparr>, Inr 2) \<and>
   current_weather snapshot_durable = current_weather (working rabat_pending) \<and>
   historical_weather snapshot_durable = historical_weather (working rabat_pending) \<and>
   collect_weather stuck_run [''Rabat'', ''Fes''] empty_store =
     (lopsided,
      [ReportHeader, ReportLine (Failure ''Rabat'' (Error ''Lock wait timeout exceeded'')),
       ReportLine (Success ''Fes'' 20)], None) \<and>
   snapshot lopsided 1 = [snapshot_row 1 rabat_reading ''2024-05-01 10:00:01''] \<and>
   history lopsided 1 = []"
proof -
  note t = pending_snapshot_committed_later [where w = stuck and city = "''Rabat''" and lat = 34
      and lon = "-7" and con = fresh and ?con1.0 = rabat_known and i = 1
      and ?con2.0 = "\<lparr>committed = with_date, working = with_date\<rparr>" and k = 1
      and data_list = forecast_example and r = rabat_reading and ?con3.0 = rabat_pending
      and ?con4.0 = rabat_pending and e = "Error ''Lock wait timeout exceeded''"
      and ws = "worlds stuck_run" and j = 0 and later = "[''Fes'']" and results = "[]"
      and w' = calm and city' = "''Fes''" and lat' = 34 and lon' = "-7"
      and ?con5.0 = "\<lparr>committed = snapshot_durable, working = snapshot_durable\<rparr>"
      and res = "Inr 2"]
  have h1: "get_city_coordinates stuck ''Rabat'' = Inr (34, -7)" by (rule stuck_fields)
  have h3: "get_or_create_date stuck (w_now stuck) rabat_known =
     (\<lparr>committed = with_date, working = with_date\<rparr>, Inr 1)"
    by (simp add: stuck_fields resolve_date_stuck)
  have h4: "w_forecast stuck 34 (-7) = Inr forecast_example" by (rule stuck_fields)
  have h5: "aggregate (dt_date (w_now stuck)) forecast_example = Inr rabat_reading"
    by (simp add: stuck_fields may_first_fields aggregate_example)
  have h8: "is_Exception (Error ''Lock wait timeout exceeded'')" by simp
  have h9: "w_fault calm InsertCity = None" "w_fault calm CommitCity = None"
    by (simp_all add: calm_fields)
  have w0: "worlds stuck_run 0 = stuck" by (simp add: stuck_run_def)
  from t h1 resolve_rabat_stuck h3 h4 h5 upsert_rabat_stuck history_rabat_stuck
  have c1: "process_city stuck ''Rabat'' fresh = (rabat_pending, Inl (Error ''Lock wait timeout exceeded''))"
    and c2: "snapshot (working rabat_pending) 1 \<noteq> []"
    and c3: "historical_weather (working rabat_pending) = historical_weather (committed rabat_pending)"
    and c4: "dim_city (working rabat_pending) \<noteq> None"
    by blast+
  from t c1 h8 w0
  have c5: "process_cities (worlds stuck_run) 0 (''Rabat'' # [''Fes'']) [] fresh =
     process_cities (worlds stuck_run) (Suc 0) [''Fes'']
       ([] @ [Failure ''Rabat'' (Error ''Lock wait timeout exceeded'')]) rabat_pending"
    by (simp del: process_cities.simps)
  from t c4 h9 resolve_fes_pending
  have c6: "current_weather (committed \<lparr>committed = snapshot_durable, working = snapshot_durable\<rparr>) =
      current_weather (working rabat_pending)"
    and c7: "historical_weather (committed \<lparr>committed = snapshot_durable, working = snapshot_durable\<rparr>) =
      historical_weather (working rabat_pending)"
    by blast+
  have e1: "snapshot (committed rabat_pending) 1 = []"
    by (simp add: snapshot_def table_rows_def rabat_pending_def with_date_def with_rabat_def
        empty_store_def)
  have e2: "snapshot lopsided 1 = [snapshot_row 1 rabat_reading ''2024-05-01 10:00:01'']"
    "history lopsided 1 = []"
    by (simp_all add: snapshot_def history_def table_rows_def lopsided_def snapshot_row_def
        history_row_of_def)
  from c6 c7 have c67: "current_weather snapshot_durable = current_weather (working rabat_pending)"
    "historical_weather snapshot_durable = historical_weather (working rabat_pending)"
    by simp_all
  from h1 resolve_rabat_stuck h3 h4 h5 upsert_rabat_stuck history_rabat_stuck c1 c2 e1 c3 h8 c5
    c4 h9 resolve_fes_pending c67 collect_stuck e2
  show ?thesis by (intro conjI)
qed

end
